theory Spec2Isabelle
  imports Main
begin

section \<open>JavaScript values and strings\<close>

text \<open>
  A JavaScript string is a sequence of UTF-16 code units, so \<open>length\<close> is the
  \<^verbatim>\<open>.length\<close> of the source. String constants of the source are written with
  \<open>lit\<close>.
\<close>

type_synonym jstr = "nat list"

definition lit :: "string \<Rightarrow> jstr" where
  "lit s = map of_char s"

text \<open>
  The values a parsed JSON request body can hold, and \<^verbatim>\<open>undefined\<close> for a property
  the body does not have. A number is carried as its canonical \<^verbatim>\<open>String(n)\<close> image
  (\<^verbatim>\<open>"0"\<close> for both zeros, \<^verbatim>\<open>"NaN"\<close>), which is all the handlers observe of it.
  An object is carried as its own properties, in order.
\<close>

datatype jsv =
    JUndefined
  | JNull
  | JBool bool
  | JNum jstr
  | JStr jstr
  | JArr "jsv list"
  | JObj "(jstr \<times> jsv) list"

text \<open>Truthiness, as tested by \<^verbatim>\<open>if (v)\<close>, \<^verbatim>\<open>!v\<close> and \<^verbatim>\<open>v || w\<close>.\<close>

fun truthy :: "jsv \<Rightarrow> bool" where
  "truthy JUndefined = False"
| "truthy JNull = False"
| "truthy (JBool b) = b"
| "truthy (JNum n) = (n \<noteq> lit ''0'' \<and> n \<noteq> lit ''NaN'')"
| "truthy (JStr s) = (s \<noteq> [])"
| "truthy (JArr xs) = True"
| "truthy (JObj kvs) = True"

text \<open>
  The white space of \<^verbatim>\<open>String.prototype.trim\<close> and of \<^verbatim>\<open>\s\<close> in a regular
  expression: the WhiteSpace and LineTerminator code points of ECMAScript.
\<close>

definition isWhiteSpace :: "nat \<Rightarrow> bool" where
  "isWhiteSpace c \<longleftrightarrow>
     c = 9 \<or> c = 10 \<or> c = 11 \<or> c = 12 \<or> c = 13 \<or> c = 32 \<or> c = 160 \<or> c = 5760 \<or>
     (8192 \<le> c \<and> c \<le> 8202) \<or> c = 8232 \<or> c = 8233 \<or> c = 8239 \<or> c = 8287 \<or>
     c = 12288 \<or> c = 65279"

definition trim :: "jstr \<Rightarrow> jstr" where
  "trim s = rev (dropWhile isWhiteSpace (rev (dropWhile isWhiteSpace s)))"

text \<open>
  \<^verbatim>\<open>String(v)\<close>. It raises a TypeError (\<open>None\<close>) on an object that has an own
  property \<^verbatim>\<open>toString\<close>: in a value parsed from JSON that property is never callable,
  and \<^verbatim>\<open>valueOf\<close> then yields no primitive either. An array is joined with commas,
  \<^verbatim>\<open>null\<close> and \<^verbatim>\<open>undefined\<close> elements giving the empty string.
\<close>

fun String_of :: "jsv \<Rightarrow> jstr option"
  and join_of :: "jsv list \<Rightarrow> jstr option"
  and element_of :: "jsv \<Rightarrow> jstr option" where
  "String_of JUndefined = Some (lit ''undefined'')"
| "String_of JNull = Some (lit ''null'')"
| "String_of (JBool b) = Some (if b then lit ''true'' else lit ''false'')"
| "String_of (JNum n) = Some n"
| "String_of (JStr s) = Some s"
| "String_of (JArr xs) = join_of xs"
| "String_of (JObj kvs) =
     (if lit ''toString'' \<in> fst ` set kvs then None else Some (lit ''[object Object]''))"
| "join_of [] = Some []"
| "join_of [x] = element_of x"
| "join_of (x # y # ys) =
     (case element_of x of
        None \<Rightarrow> None
      | Some a \<Rightarrow> (case join_of (y # ys) of None \<Rightarrow> None | Some b \<Rightarrow> Some (a @ lit '','' @ b)))"
| "element_of JUndefined = Some []"
| "element_of JNull = Some []"
| "element_of (JBool b) = String_of (JBool b)"
| "element_of (JNum n) = String_of (JNum n)"
| "element_of (JStr s) = String_of (JStr s)"
| "element_of (JArr xs) = String_of (JArr xs)"
| "element_of (JObj kvs) = String_of (JObj kvs)"

section \<open>Tag normalisation\<close>

text \<open>
  \<^verbatim>\<open>tags.split(/[,\s#]+/)\<close>: the pieces between the maximal runs of separators. A run
  at either end leaves an empty piece there, and the empty string gives one empty piece.
\<close>

definition isTagSeparator :: "nat \<Rightarrow> bool" where
  "isTagSeparator c \<longleftrightarrow> c = 44 \<or> isWhiteSpace c \<or> c = 35"

function splitRuns :: "(nat \<Rightarrow> bool) \<Rightarrow> jstr \<Rightarrow> jstr \<Rightarrow> jstr list" where
  "splitRuns sep piece [] = [piece]"
| "splitRuns sep piece (c # cs) =
     (if sep c then piece # splitRuns sep [] (dropWhile sep cs)
      else splitRuns sep (piece @ [c]) cs)"
  by pat_completeness auto
termination
  by (relation "measure (\<lambda>(sep, piece, s). length s)")
     (auto simp: length_dropWhile_le less_Suc_eq_le)

text \<open>
  \<^verbatim>\<open>[...new Set(tagsArray)]\<close>: a Set keeps its elements in insertion order and ignores
  the insertion of an element it already has.
\<close>

definition Set_add :: "'a list \<Rightarrow> 'a \<Rightarrow> 'a list" where
  "Set_add s x = (if x \<in> set s then s else s @ [x])"

definition new_Set :: "'a list \<Rightarrow> 'a list" where
  "new_Set xs = foldl Set_add [] xs"

text \<open>
  The two branches on the shape of \<^verbatim>\<open>tags\<close>, shared by all four handlers that take
  tags: an array, a string, anything else. \<open>None\<close> is the TypeError of \<^verbatim>\<open>String(tag)\<close>.
\<close>

definition nonEmpty :: "jstr \<Rightarrow> bool" where
  "nonEmpty tag \<longleftrightarrow> length tag > 0"

fun tagsArray :: "jsv \<Rightarrow> jstr list option" where
  "tagsArray (JArr ts) =
     map_option (filter nonEmpty) (those (map (\<lambda>tag. map_option trim (String_of tag)) ts))"
| "tagsArray (JStr s) = Some (filter nonEmpty (map trim (splitRuns isTagSeparator [] s)))"
| "tagsArray _ = Some []"

text \<open>On create (notes and bookmarks): the branches are guarded by \<^verbatim>\<open>if (tags)\<close>.\<close>

definition createTags :: "jsv \<Rightarrow> jstr list option" where
  "createTags tags =
     map_option new_Set (if truthy tags then tagsArray tags else Some [])"

text \<open>On update the caller has tested \<^verbatim>\<open>tags !== undefined\<close>, and there is no guard.\<close>

definition updateTags :: "jsv \<Rightarrow> jstr list option" where
  "updateTags tags = map_option new_Set (tagsArray tags)"

text \<open>The spec's words: deduplicate, keeping each entry where it is first seen.\<close>

function firstSeen :: "'a list \<Rightarrow> 'a list" where
  "firstSeen [] = []"
| "firstSeen (x # xs) = x # firstSeen (removeAll x xs)"
  by pat_completeness auto
termination
  by (relation "measure length") (auto simp: less_Suc_eq_le)

text \<open>
  The spec's words: the tokens of a delimited string are its maximal runs of characters
  that are not separators.
\<close>

function tokens :: "(nat \<Rightarrow> bool) \<Rightarrow> jstr \<Rightarrow> jstr list" where
  "tokens sep s =
     (case dropWhile sep s of
        [] \<Rightarrow> []
      | c # cs \<Rightarrow> takeWhile (\<lambda>x. \<not> sep x) (c # cs) # tokens sep (dropWhile (\<lambda>x. \<not> sep x) cs))"
  by pat_completeness auto
termination
proof (relation "measure (\<lambda>(sep, s). length s)", goal_cases)
  case 1
  show ?case by simp
next
  case (2 sep s c cs)
  have "length (dropWhile (\<lambda>x. \<not> sep x) cs) \<le> length cs"
    by (rule length_dropWhile_le)
  moreover have "length (c # cs) \<le> length s"
    using 2 length_dropWhile_le [of sep s] by simp
  ultimately show ?case by simp
qed

declare tokens.simps [simp del]

section \<open>Request validation\<close>

text \<open>
  The test \<^verbatim>\<open>!v || typeof v !== 'string' || !v.trim()\<close> of a required field.
\<close>

fun blankOrNotString :: "jsv \<Rightarrow> bool" where
  "blankOrNotString (JStr s) = (s = [] \<or> trim s = [])"
| "blankOrNotString _ = True"

text \<open>
  \<^verbatim>\<open>/^https?:\/\/.+/\<close>: after the scheme and the two slashes comes at least one
  character, and \<^verbatim>\<open>.\<close> matches no line terminator.
\<close>

definition isLineTerminator :: "nat \<Rightarrow> bool" where
  "isLineTerminator c \<longleftrightarrow> c = 10 \<or> c = 13 \<or> c = 8232 \<or> c = 8233"

fun dotPlus :: "jstr \<Rightarrow> bool" where
  "dotPlus [] = False"
| "dotPlus (c # cs) = (\<not> isLineTerminator c)"

definition urlPattern :: "jstr \<Rightarrow> bool" where
  "urlPattern s \<longleftrightarrow>
     (take 7 s = lit ''http://'' \<and> dotPlus (drop 7 s)) \<or>
     (take 8 s = lit ''https://'' \<and> dotPlus (drop 8 s))"

text \<open>
  \<^verbatim>\<open>v ? v.trim() : ''\<close>, for the optional strings of a bookmark. A truthy value that
  is no string has no callable \<^verbatim>\<open>trim\<close>, and the call raises a TypeError (\<open>None\<close>).
\<close>

fun trimOrEmpty :: "jsv \<Rightarrow> jstr option" where
  "trimOrEmpty (JStr s) = Some (trim s)"
| "trimOrEmpty v = (if truthy v then None else Some [])"

text \<open>
  The request body: the properties the handlers destructure from it, \<open>JUndefined\<close>
  for one the body does not have. Any other property of the body is ignored.
\<close>

record body =
  url :: jsv
  title :: jsv
  content :: jsv
  description :: jsv
  tags :: jsv
  isFavorite :: jsv

section \<open>Replies\<close>

datatype 'd payload =
    ErrorBody string
  | DocBody 'd
  | ListBody "'d list"
  | MessageBody string

datatype 'd reply = Reply (status: nat) (payload: "'d payload")

text \<open>\<^verbatim>\<open>errors.join(', ')\<close>\<close>

fun joinMessages :: "string list \<Rightarrow> string" where
  "joinMessages [] = []"
| "joinMessages [m] = m"
| "joinMessages (m # n # ms) = m @ '', '' @ joinMessages (n # ms)"

section \<open>The document store\<close>

text \<open>
  The handlers reach the store through Mongoose models. A collection is the list of its
  documents, in insertion order. The model follows the two schemas of the repository
  (the \<^verbatim>\<open>trim\<close> setters, \<^verbatim>\<open>required\<close>, \<^verbatim>\<open>maxlength\<close>, the URL validator) and
  Mongoose's casts of an identifier and of a Boolean. The schemas ask for timestamps:
  \<^verbatim>\<open>createdAt\<close> and \<^verbatim>\<open>updatedAt\<close> are set when a document is saved, and \<^verbatim>\<open>updatedAt\<close>
  is set again by every update that finds its document. The version key is left out. The
  texts of the cast messages are abbreviated.

  The cast of a string to an identifier is a parameter \<open>cast\<close> of the operations that
  take one: \<open>None\<close> is Mongoose's CastError.
\<close>

datatype store_error = CastError | ValidationError "string list" | OtherError

record "note" =
  note_id :: nat
  note_user :: nat
  note_title :: jstr
  note_content :: jstr
  note_tags :: "jstr list"
  note_isFavorite :: "bool option"
  note_createdAt :: nat
  note_updatedAt :: nat

record bookmark =
  bm_id :: nat
  bm_user :: nat
  bm_url :: jstr
  bm_title :: jstr
  bm_description :: jstr
  bm_tags :: "jstr list"
  bm_isFavorite :: "bool option"
  bm_createdAt :: nat
  bm_updatedAt :: nat

text \<open>
  Mongoose's cast to Boolean: \<^verbatim>\<open>true, 'true', 1, '1', 'yes'\<close> and
  \<^verbatim>\<open>false, 'false', 0, '0', 'no'\<close>; \<^verbatim>\<open>null\<close> and \<^verbatim>\<open>undefined\<close> stay (\<open>Some None\<close>);
  anything else is a cast error (\<open>None\<close>).
\<close>

fun castBoolean :: "jsv \<Rightarrow> bool option option" where
  "castBoolean (JBool b) = Some (Some b)"
| "castBoolean (JStr s) =
     (if s = lit ''true'' \<or> s = lit ''1'' \<or> s = lit ''yes'' then Some (Some True)
      else if s = lit ''false'' \<or> s = lit ''0'' \<or> s = lit ''no'' then Some (Some False)
      else None)"
| "castBoolean (JNum n) =
     (if n = lit ''1'' then Some (Some True)
      else if n = lit ''0'' then Some (Some False)
      else None)"
| "castBoolean JNull = Some None"
| "castBoolean JUndefined = Some None"
| "castBoolean (JArr xs) = None"
| "castBoolean (JObj kvs) = None"

text \<open>
  What the generic operations of a Mongoose model read of a document: its identifier,
  its owner, its string paths by name, its tags, its favourite flag, its creation time.
\<close>

record 'd model =
  idOf :: "'d \<Rightarrow> nat"
  userOf :: "'d \<Rightarrow> nat"
  pathOf :: "string \<Rightarrow> 'd \<Rightarrow> jstr option"
  tagsOf :: "'d \<Rightarrow> jstr list"
  favoriteOf :: "'d \<Rightarrow> bool option"
  createdAtOf :: "'d \<Rightarrow> nat"

definition Note :: "note model" where
  "Note =
     \<lparr>idOf = note_id, userOf = note_user,
      pathOf = (\<lambda>path d.
        if path = ''title'' then Some (note_title d)
        else if path = ''content'' then Some (note_content d)
        else None),
      tagsOf = note_tags, favoriteOf = note_isFavorite, createdAtOf = note_createdAt\<rparr>"

definition Bookmark :: "bookmark model" where
  "Bookmark =
     \<lparr>idOf = bm_id, userOf = bm_user,
      pathOf = (\<lambda>path d.
        if path = ''title'' then Some (bm_title d)
        else if path = ''description'' then Some (bm_description d)
        else if path = ''url'' then Some (bm_url d)
        else None),
      tagsOf = bm_tags, favoriteOf = bm_isFavorite, createdAtOf = bm_createdAt\<rparr>"

subsection \<open>Schema validation\<close>

definition titleErrors :: "bool \<Rightarrow> jstr \<Rightarrow> string list" where
  "titleErrors required t =
     (if required \<and> t = [] then [''Title is required'']
      else if length t > 200 then [''Title cannot exceed 200 characters'']
      else [])"

definition contentErrors :: "jstr \<Rightarrow> string list" where
  "contentErrors c = (if c = [] then [''Content is required''] else [])"

definition urlErrors :: "jstr \<Rightarrow> string list" where
  "urlErrors u =
     (if u = [] then [''URL is required'']
      else if \<not> urlPattern u
        then [''Please provide a valid URL (must start with http:// or https://)'']
      else [])"

definition descriptionErrors :: "jstr \<Rightarrow> string list" where
  "descriptionErrors d =
     (if length d > 500 then [''Description cannot exceed 500 characters''] else [])"

definition favoriteErrors :: "jsv \<Rightarrow> string list" where
  "favoriteErrors v = (case castBoolean v of None \<Rightarrow> [''Cast to Boolean failed''] | Some b \<Rightarrow> [])"

definition storedFavorite :: "jsv \<Rightarrow> bool option" where
  "storedFavorite v = (case castBoolean v of None \<Rightarrow> None | Some b \<Rightarrow> b)"

subsection \<open>Saving a new document\<close>

text \<open>
  \<^verbatim>\<open>new Note({...})\<close> followed by \<^verbatim>\<open>save()\<close>: the setters and casts run, then the
  validators; a failed cast is reported with the validation errors, and before them.
  \<open>now\<close> is the clock and \<open>newId\<close> the identifier generated for the document.
\<close>

definition Note_save ::
  "nat \<Rightarrow> nat \<Rightarrow> nat \<Rightarrow> jstr \<Rightarrow> jstr \<Rightarrow> jstr list \<Rightarrow> jsv \<Rightarrow> note list
     \<Rightarrow> store_error + (note \<times> note list)" where
  "Note_save now newId user t c tgs fav st =
     (let errors = favoriteErrors fav @ titleErrors True (trim t) @ contentErrors (trim c);
          doc = \<lparr>note_id = newId, note_user = user, note_title = trim t,
                 note_content = trim c, note_tags = map trim tgs,
                 note_isFavorite = storedFavorite fav, note_createdAt = now, note_updatedAt = now\<rparr>
      in if errors \<noteq> [] then Inl (ValidationError errors) else Inr (doc, st @ [doc]))"

definition Bookmark_save ::
  "nat \<Rightarrow> nat \<Rightarrow> nat \<Rightarrow> jstr \<Rightarrow> jstr \<Rightarrow> jstr \<Rightarrow> jstr list \<Rightarrow> jsv \<Rightarrow> bookmark list
     \<Rightarrow> store_error + (bookmark \<times> bookmark list)" where
  "Bookmark_save now newId user u t d tgs fav st =
     (let errors = favoriteErrors fav @ urlErrors (trim u) @ titleErrors False (trim t) @
                   descriptionErrors (trim d);
          doc = \<lparr>bm_id = newId, bm_user = user, bm_url = trim u, bm_title = trim t,
                 bm_description = trim d, bm_tags = map trim tgs,
                 bm_isFavorite = storedFavorite fav, bm_createdAt = now, bm_updatedAt = now\<rparr>
      in if errors \<noteq> [] then Inl (ValidationError errors) else Inr (doc, st @ [doc]))"

subsection \<open>Finding, updating and deleting one document by identifier and owner\<close>

definition byIdAndUser :: "'d model \<Rightarrow> nat \<Rightarrow> nat \<Rightarrow> 'd \<Rightarrow> bool" where
  "byIdAndUser M i user d \<longleftrightarrow> idOf M d = i \<and> userOf M d = user"

definition findOne ::
  "(jstr \<Rightarrow> nat option) \<Rightarrow> 'd model \<Rightarrow> jstr \<Rightarrow> nat \<Rightarrow> 'd list \<Rightarrow> store_error + 'd option" where
  "findOne cast M idParam user st =
     (case cast idParam of
        None \<Rightarrow> Inl CastError
      | Some i \<Rightarrow> Inr (find (byIdAndUser M i user) st))"

fun removeFirst :: "('d \<Rightarrow> bool) \<Rightarrow> 'd list \<Rightarrow> 'd list" where
  "removeFirst P [] = []"
| "removeFirst P (d # ds) = (if P d then ds else d # removeFirst P ds)"

definition findOneAndDelete ::
  "(jstr \<Rightarrow> nat option) \<Rightarrow> 'd model \<Rightarrow> jstr \<Rightarrow> nat \<Rightarrow> 'd list
     \<Rightarrow> store_error + ('d option \<times> 'd list)" where
  "findOneAndDelete cast M idParam user st =
     (case cast idParam of
        None \<Rightarrow> Inl CastError
      | Some i \<Rightarrow>
          Inr (find (byIdAndUser M i user) st, removeFirst (byIdAndUser M i user) st))"

fun updateFirst :: "('d \<Rightarrow> bool) \<Rightarrow> ('d \<Rightarrow> 'd) \<Rightarrow> 'd list \<Rightarrow> 'd list" where
  "updateFirst P f [] = []"
| "updateFirst P f (d # ds) = (if P d then f d # ds else d # updateFirst P f ds)"

text \<open>
  \<^verbatim>\<open>findOneAndUpdate(filter, updateData, { new: true, runValidators: true })\<close>: the
  filter is cast, then the update is cast and validated (\<open>change\<close> is the outcome: an
  error, or the assignment to apply), and only then is the collection searched. The
  first document that matches is updated, and it is the updated document that is
  returned.
\<close>

definition findOneAndUpdate ::
  "(jstr \<Rightarrow> nat option) \<Rightarrow> 'd model \<Rightarrow> jstr \<Rightarrow> nat \<Rightarrow> store_error + ('d \<Rightarrow> 'd) \<Rightarrow> 'd list
     \<Rightarrow> store_error + ('d option \<times> 'd list)" where
  "findOneAndUpdate cast M idParam user change st =
     (case cast idParam of
        None \<Rightarrow> Inl CastError
      | Some i \<Rightarrow>
          (case change of
             Inl e \<Rightarrow> Inl e
           | Inr f \<Rightarrow>
               Inr (map_option f (find (byIdAndUser M i user) st),
                    updateFirst (byIdAndUser M i user) f st)))"

text \<open>
  \<^verbatim>\<open>updateData\<close>: a property the handler has not set is \<open>None\<close>.
\<close>

record update_data =
  set_url :: "jstr option"
  set_title :: "jstr option"
  set_content :: "jstr option"
  set_description :: "jstr option"
  set_tags :: "jstr list option"
  set_isFavorite :: "jsv option"

definition assign :: "'a option \<Rightarrow> 'a \<Rightarrow> 'a" where
  "assign new old = (case new of None \<Rightarrow> old | Some v \<Rightarrow> v)"

definition onSet :: "'a option \<Rightarrow> ('a \<Rightarrow> string list) \<Rightarrow> string list" where
  "onSet new check = (case new of None \<Rightarrow> [] | Some v \<Rightarrow> check v)"

definition castFavorite :: "jsv option \<Rightarrow> bool option option option" where
  "castFavorite v = (case v of None \<Rightarrow> Some None | Some x \<Rightarrow> map_option Some (castBoolean x))"

text \<open>
  What becomes of \<^verbatim>\<open>updateData\<close> under a schema: a cast error, the validation
  errors (Mongoose walks the paths of an update from the last one set to the first), or
  the assignment of the paths that are set, together with the update time.
\<close>

definition Note_change :: "nat \<Rightarrow> update_data \<Rightarrow> store_error + (note \<Rightarrow> note)" where
  "Note_change now u =
     (case castFavorite (set_isFavorite u) of
        None \<Rightarrow> Inl CastError
      | Some fav \<Rightarrow>
          (let t = map_option trim (set_title u);
               c = map_option trim (set_content u);
               tgs = map_option (map trim) (set_tags u);
               errors = onSet c contentErrors @ onSet t (titleErrors True)
           in if errors \<noteq> [] then Inl (ValidationError errors)
              else Inr (\<lambda>d. d\<lparr>note_title := assign t (note_title d),
                                note_content := assign c (note_content d),
                                note_tags := assign tgs (note_tags d),
                                note_isFavorite := assign fav (note_isFavorite d),
                                note_updatedAt := now\<rparr>)))"

definition Bookmark_change ::
  "nat \<Rightarrow> update_data \<Rightarrow> store_error + (bookmark \<Rightarrow> bookmark)" where
  "Bookmark_change now u =
     (case castFavorite (set_isFavorite u) of
        None \<Rightarrow> Inl CastError
      | Some fav \<Rightarrow>
          (let l = map_option trim (set_url u);
               t = map_option trim (set_title u);
               d = map_option trim (set_description u);
               tgs = map_option (map trim) (set_tags u);
               errors = onSet d descriptionErrors @ onSet t (titleErrors False) @
                        onSet l urlErrors
           in if errors \<noteq> [] then Inl (ValidationError errors)
              else Inr (\<lambda>b. b\<lparr>bm_url := assign l (bm_url b),
                                bm_title := assign t (bm_title b),
                                bm_description := assign d (bm_description b),
                                bm_tags := assign tgs (bm_tags b),
                                bm_isFavorite := assign fav (bm_isFavorite b),
                                bm_updatedAt := now\<rparr>)))"

subsection \<open>Finding by a query\<close>

text \<open>
  The filter object the list handlers build: the owner, \<^verbatim>\<open>$or\<close> (one
  \<^verbatim>\<open>{path: {$regex: q, $options: 'i'}}\<close> per path), \<^verbatim>\<open>tags: {$in: ...}\<close> and
  \<^verbatim>\<open>isFavorite\<close>; a property that is not set is \<open>None\<close>.

  The store's regular expressions are a parameter \<open>regex\<close>: \<open>regex p\<close> is \<open>None\<close>
  when the store rejects the pattern \<open>p\<close>, and otherwise tells of a string whether
  \<open>p\<close>, case-insensitively, matches somewhere in it.
\<close>

record find_query =
  where_user :: nat
  where_or :: "(string \<times> jstr) list option"
  where_tags_in :: "jstr list option"
  where_isFavorite :: "bool option"

definition orHolds :: "'d model \<Rightarrow> (string \<times> (jstr \<Rightarrow> bool)) list \<Rightarrow> 'd \<Rightarrow> bool" where
  "orHolds M alts d \<longleftrightarrow>
     list_ex (\<lambda>(path, m). case pathOf M path d of None \<Rightarrow> False | Some s \<Rightarrow> m s) alts"

definition matches ::
  "'d model \<Rightarrow> find_query \<Rightarrow> (string \<times> (jstr \<Rightarrow> bool)) list option \<Rightarrow> 'd \<Rightarrow> bool" where
  "matches M query alts d \<longleftrightarrow>
     userOf M d = where_user query \<and>
     (case alts of None \<Rightarrow> True | Some ms \<Rightarrow> orHolds M ms d) \<and>
     (case where_tags_in query of
        None \<Rightarrow> True
      | Some ts \<Rightarrow> list_ex (\<lambda>t. t \<in> set (tagsOf M d)) ts) \<and>
     (case where_isFavorite query of None \<Rightarrow> True | Some b \<Rightarrow> favoriteOf M d = Some b)"

definition compileOr ::
  "(jstr \<Rightarrow> (jstr \<Rightarrow> bool) option) \<Rightarrow> (string \<times> jstr) list option
     \<Rightarrow> (string \<times> (jstr \<Rightarrow> bool)) list option option" where
  "compileOr regex ors =
     (case ors of
        None \<Rightarrow> Some None
      | Some ps \<Rightarrow>
          map_option Some (those (map (\<lambda>(path, p). map_option (Pair path) (regex p)) ps)))"

definition find_where ::
  "(jstr \<Rightarrow> (jstr \<Rightarrow> bool) option) \<Rightarrow> 'd model \<Rightarrow> find_query \<Rightarrow> 'd list
     \<Rightarrow> store_error + 'd list" where
  "find_where regex M query st =
     (case compileOr regex (where_or query) of
        None \<Rightarrow> Inl OtherError
      | Some alts \<Rightarrow> Inr (filter (matches M query alts) st))"

text \<open>
  \<^verbatim>\<open>.sort({ createdAt: -1 })\<close>. The store leaves the order of documents created at
  the same time open; here the later one in the collection comes first.
\<close>

definition sortNewestFirst :: "'d model \<Rightarrow> 'd list \<Rightarrow> 'd list" where
  "sortNewestFirst M ds = rev (sort_key (createdAtOf M) ds)"

section \<open>The metadata fetcher\<close>

text \<open>
  What \<^verbatim>\<open>fetchMetadata\<close> reads of the page that \<^verbatim>\<open>axios.get\<close> and
  \<^verbatim>\<open>cheerio.load\<close> deliver: the \<^verbatim>\<open>content\<close> attribute of the first
  \<^verbatim>\<open>meta[property="og:title"]\<close> and of the first \<^verbatim>\<open>meta[name="twitter:title"]\<close>
  (\<open>None\<close> for \<^verbatim>\<open>undefined\<close>: no such element or attribute), the text of
  \<^verbatim>\<open>title\<close> and the text of the first \<^verbatim>\<open>h1\<close>. The world is a parameter \<open>web\<close>:
  \<open>web url\<close> is \<open>None\<close> when the request or the parsing raises (a timeout after 5
  seconds, a network error, a status outside 2xx).
\<close>

datatype page =
  Page (ogTitle: "jstr option") (twitterTitle: "jstr option") (titleText: jstr) (h1Text: jstr)

text \<open>\<^verbatim>\<open>a || b\<close> on values that are a string or \<^verbatim>\<open>undefined\<close>.\<close>

definition orElse :: "jstr option \<Rightarrow> jstr option \<Rightarrow> jstr option" where
  "orElse a b = (case a of None \<Rightarrow> b | Some s \<Rightarrow> if s \<noteq> [] then a else b)"

text \<open>\<^verbatim>\<open>.replace(/\s+/g, ' ')\<close>\<close>

function collapseWhiteSpace :: "jstr \<Rightarrow> jstr" where
  "collapseWhiteSpace [] = []"
| "collapseWhiteSpace (c # cs) =
     (if isWhiteSpace c then 32 # collapseWhiteSpace (dropWhile isWhiteSpace cs)
      else c # collapseWhiteSpace cs)"
  by pat_completeness auto
termination
  by (relation "measure length") (auto simp: length_dropWhile_le less_Suc_eq_le)

definition fetchMetadata :: "(jstr \<Rightarrow> page option) \<Rightarrow> jstr \<Rightarrow> jstr option" where
  "fetchMetadata web u =
     (case web u of
        None \<Rightarrow> None
      | Some p \<Rightarrow>
          (let found = orElse (orElse (orElse (ogTitle p) (twitterTitle p)) (Some (titleText p)))
                         (Some (h1Text p));
               cleaned = (case found of
                            None \<Rightarrow> None
                          | Some t \<Rightarrow> if t \<noteq> [] then Some (collapseWhiteSpace (trim t)) else Some t)
           in orElse cleaned None))"

section \<open>Note handlers\<close>

text \<open>
  Every handler runs behind the authentication middleware: \<open>user\<close> is
  \<^verbatim>\<open>req.user._id\<close>. A handler that writes returns the collection with its reply.
\<close>

text \<open>The string of a value that a validation has found to be a string.\<close>

fun theString :: "jsv \<Rightarrow> jstr" where
  "theString (JStr s) = s"
| "theString _ = []"

text \<open>\<^verbatim>\<open>isFavorite || false\<close>\<close>

definition orFalse :: "jsv \<Rightarrow> jsv" where
  "orFalse v = (if truthy v then v else JBool False)"

definition createNote :: "nat \<Rightarrow> nat \<Rightarrow> nat \<Rightarrow> body \<Rightarrow> note list \<Rightarrow> note reply \<times> note list" where
  "createNote now newId user b st =
     (if blankOrNotString (title b) then (Reply 400 (ErrorBody ''Title is required''), st)
      else if blankOrNotString (content b)
        then (Reply 400 (ErrorBody ''Content is required''), st)
      else
        (case createTags (tags b) of
           None \<Rightarrow> (Reply 500 (ErrorBody ''Server error while creating note''), st)
         | Some tgs \<Rightarrow>
             (case Note_save now newId user (trim (theString (title b)))
                     (trim (theString (content b))) tgs (orFalse (isFavorite b)) st of
                Inl (ValidationError errors) \<Rightarrow> (Reply 400 (ErrorBody (joinMessages errors)), st)
              | Inl _ \<Rightarrow> (Reply 500 (ErrorBody ''Server error while creating note''), st)
              | Inr (doc, st') \<Rightarrow> (Reply 201 (DocBody doc), st'))))"

text \<open>
  The query parameters \<^verbatim>\<open>q\<close>, \<^verbatim>\<open>tags\<close> and \<^verbatim>\<open>favorite\<close> are each a string or absent
  (\<open>None\<close>); a parameter given several times or with brackets is outside the model.
\<close>

fun splitOn :: "nat \<Rightarrow> jstr \<Rightarrow> jstr \<Rightarrow> jstr list" where
  "splitOn d piece [] = [piece]"
| "splitOn d piece (c # cs) =
     (if c = d then piece # splitOn d [] cs else splitOn d (piece @ [c]) cs)"

definition tagArray :: "jstr \<Rightarrow> jstr list" where
  "tagArray tgs = filter nonEmpty (map trim (splitOn 44 [] tgs))"

definition listQuery ::
  "nat \<Rightarrow> string list \<Rightarrow> jstr option \<Rightarrow> jstr option \<Rightarrow> jstr option \<Rightarrow> find_query" where
  "listQuery user paths q tgs favorite =
     (let query0 = \<lparr>where_user = user, where_or = None, where_tags_in = None,
                     where_isFavorite = None\<rparr>;
          query1 = (case q of
                      None \<Rightarrow> query0
                    | Some p \<Rightarrow>
                        if p \<noteq> [] then query0\<lparr>where_or := Some (map (\<lambda>path. (path, p)) paths)\<rparr>
                        else query0);
          query2 = (case tgs of
                      None \<Rightarrow> query1
                    | Some t \<Rightarrow>
                        if t \<noteq> [] \<and> length (tagArray t) > 0
                        then query1\<lparr>where_tags_in := Some (tagArray t)\<rparr>
                        else query1)
      in if favorite = Some (lit ''true'') then query2\<lparr>where_isFavorite := Some True\<rparr>
         else query2)"

definition listNotes ::
  "(jstr \<Rightarrow> (jstr \<Rightarrow> bool) option) \<Rightarrow> nat \<Rightarrow> jstr option \<Rightarrow> jstr option \<Rightarrow> jstr option
     \<Rightarrow> note list \<Rightarrow> note reply" where
  "listNotes regex user q tgs favorite st =
     (case find_where regex Note (listQuery user [''title'', ''content''] q tgs favorite) st of
        Inl e \<Rightarrow> Reply 500 (ErrorBody ''Server error while fetching notes'')
      | Inr notes \<Rightarrow> Reply 200 (ListBody (sortNewestFirst Note notes)))"

definition getNote :: "(jstr \<Rightarrow> nat option) \<Rightarrow> nat \<Rightarrow> jstr \<Rightarrow> note list \<Rightarrow> note reply" where
  "getNote cast user idParam st =
     (case findOne cast Note idParam user st of
        Inl CastError \<Rightarrow> Reply 400 (ErrorBody ''Invalid note ID'')
      | Inl _ \<Rightarrow> Reply 500 (ErrorBody ''Server error while fetching note'')
      | Inr None \<Rightarrow> Reply 404 (ErrorBody ''Note not found'')
      | Inr (Some doc) \<Rightarrow> Reply 200 (DocBody doc))"

text \<open>
  The first half of the update handler: the validations and \<^verbatim>\<open>updateData\<close>, or the
  reply that ends the request before the store is reached.
\<close>

definition present :: "jsv \<Rightarrow> bool" where
  "present v \<longleftrightarrow> v \<noteq> JUndefined"

definition noteUpdateData :: "body \<Rightarrow> note reply + update_data" where
  "noteUpdateData b =
     (if present (title b) \<and> blankOrNotString (title b)
        then Inl (Reply 400 (ErrorBody ''Title is required''))
      else if present (content b) \<and> blankOrNotString (content b)
        then Inl (Reply 400 (ErrorBody ''Content is required''))
      else
        (case (if present (tags b) then map_option Some (updateTags (tags b)) else Some None) of
           None \<Rightarrow> Inl (Reply 500 (ErrorBody ''Server error while updating note''))
         | Some tgs \<Rightarrow>
             Inr \<lparr>set_url = None,
                  set_title = (if present (title b) then Some (trim (theString (title b)))
                               else None),
                  set_content = (if present (content b) then Some (trim (theString (content b)))
                                 else None),
                  set_description = None,
                  set_tags = tgs,
                  set_isFavorite = (if present (isFavorite b) then Some (isFavorite b)
                                    else None)\<rparr>))"

definition updateNote ::
  "nat \<Rightarrow> (jstr \<Rightarrow> nat option) \<Rightarrow> nat \<Rightarrow> jstr \<Rightarrow> body \<Rightarrow> note list
     \<Rightarrow> note reply \<times> note list" where
  "updateNote now cast user idParam b st =
     (case noteUpdateData b of
        Inl r \<Rightarrow> (r, st)
      | Inr updateData \<Rightarrow>
          (case findOneAndUpdate cast Note idParam user (Note_change now updateData) st of
             Inl (ValidationError errors) \<Rightarrow> (Reply 400 (ErrorBody (joinMessages errors)), st)
           | Inl CastError \<Rightarrow> (Reply 400 (ErrorBody ''Invalid note ID''), st)
           | Inl OtherError \<Rightarrow> (Reply 500 (ErrorBody ''Server error while updating note''), st)
           | Inr (None, st') \<Rightarrow> (Reply 404 (ErrorBody ''Note not found''), st')
           | Inr (Some doc, st') \<Rightarrow> (Reply 200 (DocBody doc), st')))"

definition deleteNote ::
  "(jstr \<Rightarrow> nat option) \<Rightarrow> nat \<Rightarrow> jstr \<Rightarrow> note list \<Rightarrow> note reply \<times> note list" where
  "deleteNote cast user idParam st =
     (case findOneAndDelete cast Note idParam user st of
        Inl CastError \<Rightarrow> (Reply 400 (ErrorBody ''Invalid note ID''), st)
      | Inl _ \<Rightarrow> (Reply 500 (ErrorBody ''Server error while deleting note''), st)
      | Inr (None, st') \<Rightarrow> (Reply 404 (ErrorBody ''Note not found''), st')
      | Inr (Some doc, st') \<Rightarrow> (Reply 200 (MessageBody ''Note deleted successfully''), st'))"

section \<open>Bookmark handlers\<close>

text \<open>
  \<^verbatim>\<open>!bookmarkTitle || bookmarkTitle.trim() === ''\<close>. On a truthy title that is no
  string the call of \<^verbatim>\<open>trim\<close> raises a TypeError (\<open>None\<close>).
\<close>

fun noTitle :: "jsv \<Rightarrow> bool option" where
  "noTitle (JStr s) = Some (s = [] \<or> trim s = [])"
| "noTitle v = (if truthy v then None else Some True)"

text \<open>\<^verbatim>\<open>if (!bookmarkTitle) bookmarkTitle = url\<close>, on the value the fetcher returned.\<close>

definition the_default :: "'a \<Rightarrow> 'a option \<Rightarrow> 'a" where
  "the_default d v = (case v of None \<Rightarrow> d | Some x \<Rightarrow> x)"

text \<open>
  The title of a new bookmark, with the URLs handed to \<^verbatim>\<open>fetchMetadata\<close> on the
  way: the title given, or else the title fetched, or else the URL as it was sent.
\<close>

definition bookmarkTitle ::
  "(jstr \<Rightarrow> page option) \<Rightarrow> jstr \<Rightarrow> jsv \<Rightarrow> jstr option \<times> jstr list" where
  "bookmarkTitle web u t =
     (case noTitle t of
        None \<Rightarrow> (None, [])
      | Some True \<Rightarrow> (Some (the_default u (orElse (fetchMetadata web u) None)), [u])
      | Some False \<Rightarrow> (Some (theString t), []))"

definition createBookmark ::
  "(jstr \<Rightarrow> page option) \<Rightarrow> nat \<Rightarrow> nat \<Rightarrow> nat \<Rightarrow> body \<Rightarrow> bookmark list
     \<Rightarrow> bookmark reply \<times> bookmark list \<times> jstr list" where
  "createBookmark web now newId user b st =
     (if blankOrNotString (url b) then (Reply 400 (ErrorBody ''URL is required''), st, [])
      else if \<not> urlPattern (trim (theString (url b)))
        then (Reply 400
                (ErrorBody ''Please provide a valid URL (must start with http:// or https://)''),
              st, [])
      else
        (case createTags (tags b) of
           None \<Rightarrow> (Reply 500 (ErrorBody ''Server error while creating bookmark''), st, [])
         | Some tgs \<Rightarrow>
             (case bookmarkTitle web (theString (url b)) (title b) of
                (None, fetched) \<Rightarrow>
                  (Reply 500 (ErrorBody ''Server error while creating bookmark''), st, fetched)
              | (Some t, fetched) \<Rightarrow>
                  (case trimOrEmpty (description b) of
                     None \<Rightarrow>
                       (Reply 500 (ErrorBody ''Server error while creating bookmark''), st,
                        fetched)
                   | Some d \<Rightarrow>
                       (case Bookmark_save now newId user (trim (theString (url b))) (trim t) d
                               tgs (orFalse (isFavorite b)) st of
                          Inl (ValidationError errors) \<Rightarrow>
                            (Reply 400 (ErrorBody (joinMessages errors)), st, fetched)
                        | Inl _ \<Rightarrow>
                            (Reply 500 (ErrorBody ''Server error while creating bookmark''), st,
                             fetched)
                        | Inr (doc, st') \<Rightarrow> (Reply 201 (DocBody doc), st', fetched))))))"

definition listBookmarks ::
  "(jstr \<Rightarrow> (jstr \<Rightarrow> bool) option) \<Rightarrow> nat \<Rightarrow> jstr option \<Rightarrow> jstr option \<Rightarrow> jstr option
     \<Rightarrow> bookmark list \<Rightarrow> bookmark reply" where
  "listBookmarks regex user q tgs favorite st =
     (case find_where regex Bookmark
             (listQuery user [''title'', ''description'', ''url''] q tgs favorite) st of
        Inl e \<Rightarrow> Reply 500 (ErrorBody ''Server error while fetching bookmarks'')
      | Inr bookmarks \<Rightarrow> Reply 200 (ListBody (sortNewestFirst Bookmark bookmarks)))"

definition getBookmark ::
  "(jstr \<Rightarrow> nat option) \<Rightarrow> nat \<Rightarrow> jstr \<Rightarrow> bookmark list \<Rightarrow> bookmark reply" where
  "getBookmark cast user idParam st =
     (case findOne cast Bookmark idParam user st of
        Inl CastError \<Rightarrow> Reply 400 (ErrorBody ''Invalid bookmark ID'')
      | Inl _ \<Rightarrow> Reply 500 (ErrorBody ''Server error while fetching bookmark'')
      | Inr None \<Rightarrow> Reply 404 (ErrorBody ''Bookmark not found'')
      | Inr (Some doc) \<Rightarrow> Reply 200 (DocBody doc))"

text \<open>
  \<^verbatim>\<open>updateData.title = title ? title.trim() : ''\<close>, for a property that is present.
\<close>

definition setTrimOrEmpty :: "jsv \<Rightarrow> jstr option option" where
  "setTrimOrEmpty v = (if present v then map_option Some (trimOrEmpty v) else Some None)"

definition bookmarkUpdateData :: "body \<Rightarrow> bookmark reply + update_data" where
  "bookmarkUpdateData b =
     (if present (url b) \<and> blankOrNotString (url b)
        then Inl (Reply 400 (ErrorBody ''URL is required''))
      else if present (url b) \<and> \<not> urlPattern (trim (theString (url b)))
        then Inl (Reply 400
               (ErrorBody ''Please provide a valid URL (must start with http:// or https://)''))
      else
        (case (setTrimOrEmpty (title b), setTrimOrEmpty (description b),
               if present (tags b) then map_option Some (updateTags (tags b)) else Some None) of
           (Some t, Some d, Some tgs) \<Rightarrow>
             Inr \<lparr>set_url = (if present (url b) then Some (trim (theString (url b))) else None),
                  set_title = t,
                  set_content = None,
                  set_description = d,
                  set_tags = tgs,
                  set_isFavorite = (if present (isFavorite b) then Some (isFavorite b)
                                    else None)\<rparr>
         | _ \<Rightarrow> Inl (Reply 500 (ErrorBody ''Server error while updating bookmark''))))"

definition updateBookmark ::
  "nat \<Rightarrow> (jstr \<Rightarrow> nat option) \<Rightarrow> nat \<Rightarrow> jstr \<Rightarrow> body \<Rightarrow> bookmark list
     \<Rightarrow> bookmark reply \<times> bookmark list" where
  "updateBookmark now cast user idParam b st =
     (case bookmarkUpdateData b of
        Inl r \<Rightarrow> (r, st)
      | Inr updateData \<Rightarrow>
          (case findOneAndUpdate cast Bookmark idParam user (Bookmark_change now updateData) st of
             Inl (ValidationError errors) \<Rightarrow> (Reply 400 (ErrorBody (joinMessages errors)), st)
           | Inl CastError \<Rightarrow> (Reply 400 (ErrorBody ''Invalid bookmark ID''), st)
           | Inl OtherError \<Rightarrow>
               (Reply 500 (ErrorBody ''Server error while updating bookmark''), st)
           | Inr (None, st') \<Rightarrow> (Reply 404 (ErrorBody ''Bookmark not found''), st')
           | Inr (Some doc, st') \<Rightarrow> (Reply 200 (DocBody doc), st')))"

definition deleteBookmark ::
  "(jstr \<Rightarrow> nat option) \<Rightarrow> nat \<Rightarrow> jstr \<Rightarrow> bookmark list \<Rightarrow> bookmark reply \<times> bookmark list" where
  "deleteBookmark cast user idParam st =
     (case findOneAndDelete cast Bookmark idParam user st of
        Inl CastError \<Rightarrow> (Reply 400 (ErrorBody ''Invalid bookmark ID''), st)
      | Inl _ \<Rightarrow> (Reply 500 (ErrorBody ''Server error while deleting bookmark''), st)
      | Inr (None, st') \<Rightarrow> (Reply 404 (ErrorBody ''Bookmark not found''), st')
      | Inr (Some doc, st') \<Rightarrow>
          (Reply 200 (MessageBody ''Bookmark deleted successfully''), st'))"

section \<open>Instances of the parameters\<close>

text \<open>
  An identifier cast: the 24 hexadecimal digits of an ObjectId, read as a number.
\<close>

definition hexDigit :: "nat \<Rightarrow> nat option" where
  "hexDigit c =
     (if 48 \<le> c \<and> c \<le> 57 then Some (c - 48)
      else if 97 \<le> c \<and> c \<le> 102 then Some (c - 87)
      else if 65 \<le> c \<and> c \<le> 70 then Some (c - 55)
      else None)"

definition castObjectId :: "jstr \<Rightarrow> nat option" where
  "castObjectId s =
     (if length s = 24 then map_option (foldl (\<lambda>n d. 16 * n + d) 0) (those (map hexDigit s))
      else None)"

text \<open>
  A regular-expression engine for the patterns made of \<^verbatim>\<open>.\<close> and of ASCII characters
  without a special meaning (the special ones are \<^verbatim>\<open>\ ^ $ . | ? * + ( ) [ ] { }\<close>); it
  declines every other pattern. \<^verbatim>\<open>.\<close> matches any character but a line feed, a letter
  matches in either case.
\<close>

definition isSpecial :: "nat \<Rightarrow> bool" where
  "isSpecial c \<longleftrightarrow> c \<in> set [92, 94, 36, 46, 124, 63, 42, 43, 40, 41, 91, 93, 123, 125]"

definition lowerCase :: "nat \<Rightarrow> nat" where
  "lowerCase c = (if 65 \<le> c \<and> c \<le> 90 then c + 32 else c)"

fun matchesHere :: "jstr \<Rightarrow> jstr \<Rightarrow> bool" where
  "matchesHere [] s = True"
| "matchesHere (p # ps) [] = False"
| "matchesHere (p # ps) (c # cs) =
     ((if p = 46 then c \<noteq> 10 else lowerCase p = lowerCase c) \<and> matchesHere ps cs)"

fun matchesSomewhere :: "jstr \<Rightarrow> jstr \<Rightarrow> bool" where
  "matchesSomewhere p [] = matchesHere p []"
| "matchesSomewhere p (c # cs) = (matchesHere p (c # cs) \<or> matchesSomewhere p cs)"

definition dotOrLiteral :: "jstr \<Rightarrow> (jstr \<Rightarrow> bool) option" where
  "dotOrLiteral p =
     (if list_all (\<lambda>c. c = 46 \<or> (c < 128 \<and> \<not> isSpecial c)) p then Some (matchesSomewhere p)
      else None)"

section \<open>The words of the specification\<close>

text \<open>The term occurs in the text as a substring, letters compared in either case.\<close>

fun occursAt :: "jstr \<Rightarrow> jstr \<Rightarrow> bool" where
  "occursAt [] s = True"
| "occursAt (p # ps) [] = False"
| "occursAt (p # ps) (c # cs) = (lowerCase p = lowerCase c \<and> occursAt ps cs)"

fun occursIn :: "jstr \<Rightarrow> jstr \<Rightarrow> bool" where
  "occursIn p [] = occursAt p []"
| "occursIn p (c # cs) = (occursAt p (c # cs) \<or> occursIn p cs)"

text \<open>
  A value whose coercion to a string raises: an object with a property \<^verbatim>\<open>toString\<close>
  of its own, or an array that has such a value among its elements.
\<close>

fun raisesInString :: "jsv \<Rightarrow> bool" where
  "raisesInString (JObj kvs) = (lit ''toString'' \<in> fst ` set kvs)"
| "raisesInString (JArr xs) = list_ex raisesInString xs"
| "raisesInString v = False"

text \<open>
  The candidate titles of a page in priority order, and the first one that is not
  empty.
\<close>

definition candidates :: "page \<Rightarrow> jstr list" where
  "candidates p =
     (case ogTitle p of None \<Rightarrow> [] | Some s \<Rightarrow> [s]) @
     (case twitterTitle p of None \<Rightarrow> [] | Some s \<Rightarrow> [s]) @ [titleText p, h1Text p]"

fun firstNonEmpty :: "jstr list \<Rightarrow> jstr option" where
  "firstNonEmpty [] = None"
| "firstNonEmpty (c # cs) = (if c \<noteq> [] then Some c else firstNonEmpty cs)"

text \<open>
  A text in which white space only occurs as a single space with another character
  after it.
\<close>

fun singleSpaced :: "jstr \<Rightarrow> bool" where
  "singleSpaced [] = True"
| "singleSpaced [c] = (\<not> isWhiteSpace c)"
| "singleSpaced (c # d # r) =
     ((if isWhiteSpace c then c = 32 \<and> \<not> isWhiteSpace d else True) \<and> singleSpaced (d # r))"

section \<open>Properties of the tag normaliser\<close>

lemma foldl_Set_add: "foldl Set_add acc xs = acc @ firstSeen (filter (\<lambda>x. x \<notin> set acc) xs)"
proof (induction xs arbitrary: acc)
  case Nil
  show ?case by simp
next
  case (Cons x xs)
  show ?case
  proof (cases "x \<in> set acc")
    case True
    then show ?thesis using Cons.IH [of acc] by (simp add: Set_add_def)
  next
    case False
    have "removeAll x (filter (\<lambda>y. y \<notin> set acc) xs) = filter (\<lambda>y. y \<notin> set (acc @ [x])) xs"
      by (induction xs) auto
    then show ?thesis using False Cons.IH [of "acc @ [x]"] by (simp add: Set_add_def)
  qed
qed

lemma new_Set_firstSeen: "new_Set xs = firstSeen xs"
  by (simp add: new_Set_def foldl_Set_add)

lemma set_firstSeen: "set (firstSeen xs) = set xs"
  by (induction xs rule: firstSeen.induct) auto

lemma distinct_firstSeen: "distinct (firstSeen xs)"
  by (induction xs rule: firstSeen.induct) (auto simp: set_firstSeen)

lemma firstSeen_distinct: "distinct xs \<Longrightarrow> firstSeen xs = xs"
  by (induction xs) auto

lemma trim_fixed:
  assumes "t \<noteq> []" "\<not> isWhiteSpace (hd t)" "\<not> isWhiteSpace (last t)"
  shows "trim t = t"
proof -
  have a: "dropWhile isWhiteSpace t = t"
    using assms by (cases t) auto
  obtain x xs where r: "rev t = x # xs"
    using assms(1) by (cases "rev t") auto
  have "hd (rev t) = last t" using assms(1) by (simp add: hd_rev)
  then have "\<not> isWhiteSpace x" using r assms(3) by simp
  then have b: "dropWhile isWhiteSpace (rev t) = rev t"
    by (simp only: r dropWhile.simps if_False)
  show ?thesis by (simp add: trim_def a b)
qed

lemma trim_ends:
  assumes "trim s \<noteq> []"
  shows "\<not> isWhiteSpace (hd (trim s)) \<and> \<not> isWhiteSpace (last (trim s))"
proof -
  define a where "a = dropWhile isWhiteSpace s"
  define b where "b = dropWhile isWhiteSpace (rev a)"
  have t: "trim s = rev b" by (simp add: trim_def a_def b_def)
  then have bne: "b \<noteq> []" using assms by simp
  then have hb: "\<not> isWhiteSpace (hd b)"
    unfolding b_def by (metis hd_dropWhile)
  have ane: "a \<noteq> []" using bne b_def by auto
  then have ha: "\<not> isWhiteSpace (hd a)"
    unfolding a_def by (metis hd_dropWhile)
  have "last b = last (rev a)"
    using bne unfolding b_def by (metis last_appendR takeWhile_dropWhile_id)
  then have lb: "last b = hd a" using ane by (simp add: last_rev)
  have "hd (rev b) = last b" "last (rev b) = hd b"
    using bne by (simp_all add: hd_rev last_rev)
  then show ?thesis using t hb ha lb by simp
qed

lemma trim_idem: "trim (trim s) = trim s"
proof (cases "trim s = []")
  case True
  have "trim [] = []" by (simp add: trim_def)
  then show ?thesis using True by simp
next
  case False
  then show ?thesis using trim_ends [OF False] by (intro trim_fixed) auto
qed

lemma trim_no_space: "\<forall>c\<in>set s. \<not> isWhiteSpace c \<Longrightarrow> trim s = s"
proof (cases "s = []")
  case True
  then show ?thesis by (simp add: trim_def)
next
  case False
  assume "\<forall>c\<in>set s. \<not> isWhiteSpace c"
  then show ?thesis using False by (intro trim_fixed) auto
qed

lemma tokens_Nil: "tokens sep [] = []"
  by (simp add: tokens.simps)

lemma tokens_sep: "sep c \<Longrightarrow> tokens sep (c # cs) = tokens sep cs"
  by (simp add: tokens.simps [of sep "c # cs"] tokens.simps [of sep cs])

lemma tokens_piece:
  assumes "piece \<noteq> []" "\<forall>c\<in>set piece. \<not> sep c" "s = [] \<or> sep (hd s)"
  shows "tokens sep (piece @ s) = piece # tokens sep s"
proof -
  obtain c cs where p: "piece = c # cs" using assms(1) by (cases piece) auto
  have d: "dropWhile sep (piece @ s) = c # (cs @ s)"
    using assms(2) p by simp
  have t: "takeWhile (\<lambda>x. \<not> sep x) (c # (cs @ s)) = piece"
    using assms(2,3) p by (cases s) (auto simp: takeWhile_append)
  have "dropWhile (\<lambda>x. \<not> sep x) (cs @ s) = dropWhile (\<lambda>x. \<not> sep x) s"
    using assms(2) p by (simp add: dropWhile_append)
  also have "\<dots> = s" using assms(3) by (cases s) auto
  finally have r: "dropWhile (\<lambda>x. \<not> sep x) (cs @ s) = s" .
  show ?thesis
    by (subst tokens.simps) (simp add: d t r del: takeWhile.simps dropWhile.simps)
qed

lemma tokens_dropWhile: "tokens sep (dropWhile sep s) = tokens sep s"
  by (induction s) (auto simp: tokens_sep)

lemma splitRuns_fields:
  "\<forall>c\<in>set piece. \<not> sep c \<Longrightarrow>
   filter (\<lambda>p. p \<noteq> []) (splitRuns sep piece s) = tokens sep (piece @ s)"
proof (induction sep piece s rule: splitRuns.induct)
  case (1 sep piece)
  then show ?case
    using tokens_piece [of piece sep "[]"] by (cases "piece = []") (auto simp: tokens_Nil)
next
  case (2 sep piece c cs)
  show ?case
  proof (cases "sep c")
    case True
    have ih: "filter (\<lambda>p. p \<noteq> []) (splitRuns sep [] (dropWhile sep cs)) = tokens sep cs"
      using 2(1) [OF True] by (simp add: tokens_dropWhile)
    show ?thesis
    proof (cases "piece = []")
      case True
      then show ?thesis using \<open>sep c\<close> ih by (simp add: tokens_sep)
    next
      case False
      have "tokens sep (piece @ c # cs) = piece # tokens sep (c # cs)"
        using False 2(3) \<open>sep c\<close> by (intro tokens_piece) auto
      then show ?thesis using False \<open>sep c\<close> ih by (simp add: tokens_sep)
    qed
  next
    case False
    then show ?thesis using 2(2) [OF False] 2(3) by simp
  qed
qed

lemma splitRuns_pieces:
  "\<forall>c\<in>set piece. \<not> sep c \<Longrightarrow> p \<in> set (splitRuns sep piece s) \<Longrightarrow> \<forall>c\<in>set p. \<not> sep c"
proof (induction sep piece s rule: splitRuns.induct)
  case (1 sep piece)
  have "p \<in> set [piece]" using 1(2) by (simp only: splitRuns.simps)
  then have "p = piece" by simp
  then show ?case using 1(1) by blast
next
  case (2 sep piece c cs)
  have mem: "p \<in> set (splitRuns sep piece (c # cs))" by (rule 2(4))
  show ?case
  proof (cases "sep c")
    case True
    have "p \<in> set (piece # splitRuns sep [] (dropWhile sep cs))"
      using mem True by (simp only: splitRuns.simps if_True)
    then have "p = piece \<or> p \<in> set (splitRuns sep [] (dropWhile sep cs))"
      by (simp only: set_simps insert_iff)
    then show ?thesis
    proof
      assume "p = piece"
      then show ?thesis using 2(3) by blast
    next
      assume "p \<in> set (splitRuns sep [] (dropWhile sep cs))"
      moreover have "\<forall>x\<in>set []. \<not> sep x" by simp
      ultimately show ?thesis using 2(1) [OF True] by blast
    qed
  next
    case False
    have "p \<in> set (splitRuns sep (piece @ [c]) cs)"
      using mem False by (simp only: splitRuns.simps if_False)
    moreover have "\<forall>x\<in>set (piece @ [c]). \<not> sep x"
      using 2(3) False by (simp only: set_append set_simps) blast
    ultimately show ?thesis using 2(2) [OF False] by blast
  qed
qed

lemma those_map_Some: "those (map Some xs) = Some xs"
  by (induction xs) simp_all

lemma those_map_option:
  "those (map (\<lambda>x. map_option f (g x)) xs) = map_option (map f) (those (map g xs))"
  by (induction xs) (auto split: option.splits simp: option.map_comp comp_def)

lemma nonEmpty_eq: "nonEmpty = (\<lambda>p. p \<noteq> [])"
  by (simp add: nonEmpty_def fun_eq_iff)

lemma tagsArray_array:
  "tagsArray (JArr ts) =
     map_option (\<lambda>ss. filter (\<lambda>t. t \<noteq> []) (map trim ss)) (those (map String_of ts))"
  by (simp add: those_map_option nonEmpty_eq option.map_comp comp_def)

lemma createTags_updateTags: "createTags v = updateTags v"
proof (cases v)
  case (JStr s)
  then show ?thesis by (cases s) (simp_all add: createTags_def updateTags_def nonEmpty_def trim_def)
qed (simp_all add: createTags_def updateTags_def)

lemma tagsArray_entries:
  assumes "tagsArray v = Some entries" "t \<in> set entries"
  shows "t \<noteq> [] \<and> trim t = t"
proof -
  have "\<exists>ss. entries = filter nonEmpty (map trim ss)"
  proof (cases v)
    case (JArr ts)
    then show ?thesis using assms(1) by (auto simp: tagsArray_array nonEmpty_eq simp del: tagsArray.simps)
  next
    case (JStr s)
    then show ?thesis using assms(1) by auto
  qed (use assms in auto)
  then obtain ss where "entries = filter nonEmpty (map trim ss)" ..
  then obtain s where "t = trim s" "t \<noteq> []"
    using assms(2) by (auto simp: nonEmpty_def)
  then show ?thesis by (simp add: trim_idem)
qed

lemma tagsArray_strings:
  assumes "\<forall>t\<in>set out. t \<noteq> [] \<and> trim t = t"
  shows "tagsArray (JArr (map JStr out)) = Some out"
proof -
  have "map String_of (map JStr out) = map Some out"
    by simp
  then have "tagsArray (JArr (map JStr out)) = Some (filter (\<lambda>t. t \<noteq> []) (map trim out))"
    by (simp only: tagsArray_array those_map_Some option.map)
  moreover have "map trim out = out"
    using assms by (intro map_idI) simp
  moreover have "filter (\<lambda>t. t \<noteq> []) out = out"
    using assms by (intro filter_True) simp
  ultimately show ?thesis by simp
qed

lemma tagsArray_string_fields:
  "tagsArray (JStr s) = Some (tokens isTagSeparator s)"
proof -
  have "map trim (splitRuns isTagSeparator [] s) = splitRuns isTagSeparator [] s"
  proof (rule map_idI)
    fix p assume "p \<in> set (splitRuns isTagSeparator [] s)"
    then have "\<forall>c\<in>set p. \<not> isTagSeparator c"
      using splitRuns_pieces [of "[]" isTagSeparator p s] by simp
    then have "\<forall>c\<in>set p. \<not> isWhiteSpace c"
      by (simp add: isTagSeparator_def)
    then show "trim p = p" by (rule trim_no_space)
  qed
  moreover have "filter nonEmpty (splitRuns isTagSeparator [] s) = tokens isTagSeparator s"
    using splitRuns_fields [of "[]" isTagSeparator s] by (simp add: nonEmpty_eq)
  ultimately show ?thesis by simp
qed

text \<open>
  Claim C2. Whatever the tags sent (an array, a delimited string, anything else), the
  list the normaliser returns has no duplicates; none of its entries is empty or made
  of white space only (each is its own trimmed form); it is the list of cleaned entries
  with every entry kept where it is first seen; and normalising it again, as an array
  of strings, returns it unchanged. The normaliser of the update handlers returns the
  same list.
\<close>

theorem tag_normalizer_output:
  assumes "createTags v = Some out"
  shows "distinct out \<and>
         (\<forall>t\<in>set out. t \<noteq> [] \<and> trim t = t \<and> (\<exists>c\<in>set t. \<not> isWhiteSpace c)) \<and>
         (\<exists>entries. tagsArray v = Some entries \<and> out = firstSeen entries) \<and>
         createTags (JArr (map JStr out)) = Some out \<and>
         updateTags v = Some out \<and>
         updateTags (JArr (map JStr out)) = Some out"
proof -
  have u: "updateTags v = Some out"
    using assms by (simp add: createTags_updateTags)
  then obtain entries where e: "tagsArray v = Some entries" and o: "out = firstSeen entries"
    by (auto simp: updateTags_def new_Set_firstSeen)
  have d: "distinct out" by (simp add: o distinct_firstSeen)
  have t: "\<forall>t\<in>set out. t \<noteq> [] \<and> trim t = t"
    using tagsArray_entries [OF e] by (simp add: o set_firstSeen)
  have w: "\<exists>c\<in>set t. \<not> isWhiteSpace c" if "t \<in> set out" for t
  proof -
    have "t \<noteq> []" "trim t = t" using t that by auto
    then have "\<not> isWhiteSpace (hd t)" using trim_ends [of t] by simp
    then show ?thesis using \<open>t \<noteq> []\<close> by (meson hd_in_set)
  qed
  have i: "updateTags (JArr (map JStr out)) = Some out"
    unfolding updateTags_def tagsArray_strings [OF t]
    using d by (simp add: new_Set_firstSeen firstSeen_distinct)
  then have c: "createTags (JArr (map JStr out)) = Some out"
    by (simp add: createTags_updateTags)
  have x: "\<exists>entries. tagsArray v = Some entries \<and> out = firstSeen entries"
    using e o by blast
  have y: "\<forall>t\<in>set out. t \<noteq> [] \<and> trim t = t \<and> (\<exists>c\<in>set t. \<not> isWhiteSpace c)"
    using t w by blast
  show ?thesis using d y x c u i by (intro conjI)
qed

theorem tag_normalizer_output_witness:
  "createTags (JArr [JStr (lit ''a''), JStr (lit '' a ''), JStr [], JStr (lit ''b'')]) =
     Some [lit ''a'', lit ''b''] \<and>
   distinct [lit ''a'', lit ''b''] \<and>
   updateTags (JArr (map JStr [lit ''a'', lit ''b''])) = Some [lit ''a'', lit ''b'']"
proof -
  have h: "createTags (JArr [JStr (lit ''a''), JStr (lit '' a ''), JStr [], JStr (lit ''b'')]) =
     Some [lit ''a'', lit ''b'']"
    by (simp add: createTags_def lit_def trim_def isWhiteSpace_def nonEmpty_def new_Set_def
        Set_add_def)
  from tag_normalizer_output [OF h]
  have "distinct [lit ''a'', lit ''b'']"
    and "updateTags (JArr (map JStr [lit ''a'', lit ''b''])) = Some [lit ''a'', lit ''b'']"
    by blast+
  with h show ?thesis by (intro conjI)
qed

lemma createTags_shapes:
  "createTags (JArr ts) =
     map_option (\<lambda>ss. firstSeen (filter (\<lambda>t. t \<noteq> []) (map trim ss))) (those (map String_of ts)) \<and>
   createTags (JStr s) = Some (firstSeen (tokens isTagSeparator s)) \<and>
   createTags (JStr (lit ''foo, bar #baz  qux'')) =
     Some [lit ''foo'', lit ''bar'', lit ''baz'', lit ''qux''] \<and>
   createTags JUndefined = Some [] \<and> createTags JNull = Some [] \<and>
   createTags (JBool b) = Some [] \<and> createTags (JNum n) = Some [] \<and>
   createTags (JObj kvs) = Some [] \<and>
   updateTags v = createTags v"
proof -
  have a: "createTags (JArr ts) =
     map_option (\<lambda>ss. firstSeen (filter (\<lambda>t. t \<noteq> []) (map trim ss))) (those (map String_of ts))"
    unfolding createTags_updateTags updateTags_def tagsArray_array
    by (simp add: option.map_comp comp_def new_Set_firstSeen)
  have b: "createTags (JStr s) = Some (firstSeen (tokens isTagSeparator s))" for s
    unfolding createTags_updateTags updateTags_def tagsArray_string_fields
    by (simp add: new_Set_firstSeen)
  have c: "createTags (JStr (lit ''foo, bar #baz  qux'')) =
     Some [lit ''foo'', lit ''bar'', lit ''baz'', lit ''qux'']"
    by (simp add: createTags_def lit_def trim_def isTagSeparator_def isWhiteSpace_def
        nonEmpty_def new_Set_def Set_add_def)
  have d: "createTags JUndefined = Some []" "createTags JNull = Some []"
    "createTags (JBool b) = Some []" "createTags (JNum n) = Some []"
    "createTags (JObj kvs) = Some []"
    by (simp_all add: createTags_def new_Set_def)
  show ?thesis using a b c d by (simp only: createTags_updateTags simp_thms)
qed

lemma String_of_raises:
  "(String_of v = None \<longleftrightarrow> raisesInString v)"
  "(join_of xs = None \<longleftrightarrow> list_ex raisesInString xs)"
  "(element_of v = None \<longleftrightarrow> raisesInString v)"
  by (induction v and xs and v rule: String_of_join_of_element_of.induct)
     (auto split: option.splits)

lemma those_None: "those xs = None \<longleftrightarrow> None \<in> set xs"
  by (induction xs) (auto split: option.splits)

lemma createTags_None:
  "createTags v = None \<longleftrightarrow> (\<exists>ts. v = JArr ts \<and> list_ex raisesInString ts)"
proof (cases v)
  case (JArr ts)
  have "those (map String_of ts) = None \<longleftrightarrow> list_ex raisesInString ts"
    by (simp add: those_None list_ex_iff image_iff eq_commute [of None] String_of_raises(1))
  then show ?thesis using JArr by (simp add: createTags_shapes)
qed (simp_all add: createTags_def)

lemma tags_raise_replies:
  "\<not> blankOrNotString (title b) \<and> \<not> blankOrNotString (content b) \<and> createTags (tags b) = None \<Longrightarrow>
   createNote now newId user b st =
     (Reply 500 (ErrorBody ''Server error while creating note''), st)"
  "\<not> blankOrNotString (url b) \<and> urlPattern (trim (theString (url b))) \<and>
   createTags (tags b) = None \<Longrightarrow>
   createBookmark web now newId user b bst =
     (Reply 500 (ErrorBody ''Server error while creating bookmark''), bst, [])"
  "\<not> (present (title b) \<and> blankOrNotString (title b)) \<and>
   \<not> (present (content b) \<and> blankOrNotString (content b)) \<and>
   present (tags b) \<and> updateTags (tags b) = None \<Longrightarrow>
   updateNote now cast user idParam b st =
     (Reply 500 (ErrorBody ''Server error while updating note''), st)"
  "\<not> (present (url b) \<and>
      (blankOrNotString (url b) \<or> \<not> urlPattern (trim (theString (url b))))) \<and>
   present (tags b) \<and> updateTags (tags b) = None \<Longrightarrow>
   updateBookmark now cast user idParam b bst =
     (Reply 500 (ErrorBody ''Server error while updating bookmark''), bst)"
  by (auto simp: createNote_def createBookmark_def updateNote_def noteUpdateData_def
      updateBookmark_def bookmarkUpdateData_def split: option.splits)

text \<open>
  Claim C3, as the code has it. An array is normalised by coercing each element to a
  string, trimming it and dropping the empty results; a string by taking its tokens
  between the runs of commas, white space and \<^verbatim>\<open>#\<close>, so that
  \<^verbatim>\<open>"foo, bar #baz  qux"\<close> gives \<^verbatim>\<open>["foo", "bar", "baz", "qux"]\<close>; and a value that is
  absent or neither an array nor a string gives the empty list. In each case duplicates
  are then removed, and the update handlers normalise in the same way. There is one
  error: the coercion raises on an array with an element that is an object with a
  property \<^verbatim>\<open>toString\<close> of its own, or an array that holds one. Then, and only then,
  there is no list, and a request that has passed its validations is answered with 500
  and changes nothing.
\<close>

theorem tag_normalizer_shapes:
  "createTags (JArr ts) =
     map_option (\<lambda>ss. firstSeen (filter (\<lambda>t. t \<noteq> []) (map trim ss))) (those (map String_of ts)) \<and>
   createTags (JStr s) = Some (firstSeen (tokens isTagSeparator s)) \<and>
   createTags (JStr (lit ''foo, bar #baz  qux'')) =
     Some [lit ''foo'', lit ''bar'', lit ''baz'', lit ''qux''] \<and>
   createTags JUndefined = Some [] \<and> createTags JNull = Some [] \<and>
   createTags (JBool x) = Some [] \<and> createTags (JNum n) = Some [] \<and>
   createTags (JObj kvs) = Some [] \<and>
   updateTags v = createTags v \<and>
   (createTags v = None \<longleftrightarrow> (\<exists>es. v = JArr es \<and> list_ex raisesInString es)) \<and>
   (\<not> blankOrNotString (title b) \<and> \<not> blankOrNotString (content b) \<and>
    createTags (tags b) = None \<longrightarrow>
      createNote now newId user b st =
        (Reply 500 (ErrorBody ''Server error while creating note''), st)) \<and>
   (\<not> blankOrNotString (url b) \<and> urlPattern (trim (theString (url b))) \<and>
    createTags (tags b) = None \<longrightarrow>
      createBookmark web now newId user b bst =
        (Reply 500 (ErrorBody ''Server error while creating bookmark''), bst, [])) \<and>
   (\<not> (present (title b) \<and> blankOrNotString (title b)) \<and>
    \<not> (present (content b) \<and> blankOrNotString (content b)) \<and>
    present (tags b) \<and> updateTags (tags b) = None \<longrightarrow>
      updateNote now cast user idParam b st =
        (Reply 500 (ErrorBody ''Server error while updating note''), st)) \<and>
   (\<not> (present (url b) \<and>
       (blankOrNotString (url b) \<or> \<not> urlPattern (trim (theString (url b))))) \<and>
    present (tags b) \<and> updateTags (tags b) = None \<longrightarrow>
      updateBookmark now cast user idParam b bst =
        (Reply 500 (ErrorBody ''Server error while updating bookmark''), bst))"
  using createTags_shapes [of ts s x n kvs v] createTags_None [of v]
    tags_raise_replies(1) [of b now newId user st]
    tags_raise_replies(2) [of b web now newId user bst]
    tags_raise_replies(3) [of b now cast user idParam st]
    tags_raise_replies(4) [of b now cast user idParam bst]
  by blast

theorem tag_normalizer_shapes_witness:
  "createTags (JArr [JNum (lit ''7''), JStr (lit '' x ''), JNull]) =
     Some [lit ''7'', lit ''x'', lit ''null''] \<and>
   createTags (JStr (lit ''#a,,b a'')) = Some [lit ''a'', lit ''b''] \<and>
   createTags (JArr [JStr (lit ''a''), JObj [(lit ''toString'', JNum (lit ''1''))]]) = None \<and>
   createNote 5 9 1
     \<lparr>url = JUndefined, title = JStr (lit ''t''), content = JStr (lit ''c''),
      description = JUndefined,
      tags = JArr [JStr (lit ''a''), JObj [(lit ''toString'', JNum (lit ''1''))]],
      isFavorite = JUndefined\<rparr> [] =
     (Reply 500 (ErrorBody ''Server error while creating note''), [])"
proof -
  let ?bad = "JArr [JStr (lit ''a''), JObj [(lit ''toString'', JNum (lit ''1''))]]"
  let ?b = "\<lparr>url = JUndefined, title = JStr (lit ''t''), content = JStr (lit ''c''),
      description = JUndefined, tags = ?bad, isFavorite = JUndefined\<rparr>"
  note T = tag_normalizer_shapes [of "[JNum (lit ''7''), JStr (lit '' x ''), JNull]"
      "lit ''#a,,b a''" True "[]" "[]" ?bad ?b 5 9 1 "[]" "\<lambda>u. None" "[]" castObjectId "[]"]
  have 1: "those (map String_of [JNum (lit ''7''), JStr (lit '' x ''), JNull]) =
      Some [lit ''7'', lit '' x '', lit ''null'']"
    by simp
  have 2: "firstSeen (filter (\<lambda>t. t \<noteq> []) (map trim [lit ''7'', lit '' x '', lit ''null''])) =
      [lit ''7'', lit ''x'', lit ''null'']"
    by (simp add: lit_def trim_def isWhiteSpace_def)
  have 3: "firstSeen (tokens isTagSeparator (lit ''#a,,b a'')) = [lit ''a'', lit ''b'']"
    by (simp add: lit_def tokens.simps isTagSeparator_def isWhiteSpace_def)
  have a: "createTags (JArr [JNum (lit ''7''), JStr (lit '' x ''), JNull]) =
      Some [lit ''7'', lit ''x'', lit ''null'']"
    using T [THEN conjunct1] by (simp only: 1 2 option.map)
  have s: "createTags (JStr (lit ''#a,,b a'')) = Some [lit ''a'', lit ''b'']"
    using T [THEN conjunct2, THEN conjunct1] by (simp only: 3)
  have "list_ex raisesInString [JStr (lit ''a''), JObj [(lit ''toString'', JNum (lit ''1''))]]"
    by simp
  then have n: "createTags ?bad = None"
    using T by blast
  have v: "\<not> blankOrNotString (title ?b)" "\<not> blankOrNotString (content ?b)"
    by (simp_all add: lit_def trim_def isWhiteSpace_def)
  have g: "createTags (tags ?b) = None" using n by simp
  have r: "createNote 5 9 1 ?b [] =
      (Reply 500 (ErrorBody ''Server error while creating note''), [])"
    using T v g by blast
  show ?thesis using a s n r by (intro conjI)
qed

theorem tag_coercion_counterexample:
  "createTags (JArr [JObj [(lit ''toString'', JNum (lit ''1''))]]) = None \<and>
   createNote 5 9 1
     \<lparr>url = JUndefined, title = JStr (lit ''t''), content = JStr (lit ''c''),
      description = JUndefined, tags = JArr [JObj [(lit ''toString'', JNum (lit ''1''))]],
      isFavorite = JUndefined\<rparr> [] =
     (Reply 500 (ErrorBody ''Server error while creating note''), [])"
proof -
  have t: "trim (lit ''t'') \<noteq> []" "lit ''t'' \<noteq> []" "trim (lit ''c'') \<noteq> []" "lit ''c'' \<noteq> []"
    by (simp_all add: lit_def trim_def isWhiteSpace_def)
  have n: "createTags (JArr [JObj [(lit ''toString'', JNum (lit ''1''))]]) = None"
    by (simp add: createTags_def)
  show ?thesis using t n by (simp add: createNote_def)
qed

section \<open>Properties of the handlers\<close>

lemma not_blank_is_string: "\<not> blankOrNotString x \<Longrightarrow> \<exists>s. x = JStr s \<and> trim s \<noteq> []"
  by (cases x) auto

text \<open>
  Claim C7. Creating a note whose body has no \<^verbatim>\<open>content\<close>, or a bookmark whose URL is
  no string that matches the http(s) pattern once trimmed (\<^verbatim>\<open>ftp://x.com\<close> for one),
  is answered with 400. The reply is fixed by the body alone, the collection is returned
  as it was, and no metadata is fetched.
\<close>

theorem invalid_create_rejected:
  "(content b = JUndefined \<longrightarrow>
      createNote now newId user b st =
        (Reply 400 (ErrorBody (if blankOrNotString (title b) then ''Title is required''
                               else ''Content is required'')), st)) \<and>
   ((\<forall>s. url b' = JStr s \<longrightarrow> \<not> urlPattern (trim s)) \<longrightarrow>
      createBookmark web now newId user b' st' =
        (Reply 400 (ErrorBody (if blankOrNotString (url b') then ''URL is required''
           else ''Please provide a valid URL (must start with http:// or https://)'')),
         st', []))"
proof (intro conjI impI)
  assume "content b = JUndefined"
  then show "createNote now newId user b st =
        (Reply 400 (ErrorBody (if blankOrNotString (title b) then ''Title is required''
                               else ''Content is required'')), st)"
    by (simp add: createNote_def)
next
  assume a: "\<forall>s. url b' = JStr s \<longrightarrow> \<not> urlPattern (trim s)"
  show "createBookmark web now newId user b' st' =
        (Reply 400 (ErrorBody (if blankOrNotString (url b') then ''URL is required''
           else ''Please provide a valid URL (must start with http:// or https://)'')),
         st', [])"
  proof (cases "blankOrNotString (url b')")
    case True
    then show ?thesis by (simp add: createBookmark_def)
  next
    case False
    then obtain s where "url b' = JStr s" using not_blank_is_string by blast
    then have "\<not> urlPattern (trim (theString (url b')))" using a by simp
    then show ?thesis using False by (simp add: createBookmark_def)
  qed
qed

theorem invalid_create_rejected_witness:
  "createNote 5 9 1 \<lparr>url = JUndefined, title = JStr (lit ''t''), content = JUndefined,
      description = JUndefined, tags = JUndefined, isFavorite = JUndefined\<rparr> [] =
     (Reply 400 (ErrorBody ''Content is required''), []) \<and>
   createBookmark (\<lambda>u. None) 5 9 1 \<lparr>url = JStr (lit ''ftp://x.com''), title = JUndefined,
      content = JUndefined, description = JUndefined, tags = JUndefined,
      isFavorite = JUndefined\<rparr> [] =
     (Reply 400 (ErrorBody ''Please provide a valid URL (must start with http:// or https://)''),
      [], [])"
proof -
  let ?b = "\<lparr>url = JUndefined, title = JStr (lit ''t''), content = JUndefined,
      description = JUndefined, tags = JUndefined, isFavorite = JUndefined\<rparr>"
  let ?b' = "\<lparr>url = JStr (lit ''ftp://x.com''), title = JUndefined,
      content = JUndefined, description = JUndefined, tags = JUndefined,
      isFavorite = JUndefined\<rparr>"
  have t: "trim (lit ''t'') \<noteq> []" "lit ''t'' \<noteq> []"
    by (simp_all add: lit_def trim_def isWhiteSpace_def)
  have u: "trim (lit ''ftp://x.com'') = lit ''ftp://x.com''"
    by (simp add: lit_def trim_def isWhiteSpace_def)
  have p: "\<not> urlPattern (lit ''ftp://x.com'')"
    by (simp add: lit_def urlPattern_def)
  have n: "lit ''ftp://x.com'' \<noteq> []" by (simp add: lit_def)
  have 1: "content ?b = JUndefined" by simp
  have 2: "\<forall>s. url ?b' = JStr s \<longrightarrow> \<not> urlPattern (trim s)" using u p by simp
  have 3: "\<not> blankOrNotString (title ?b)" using t by simp
  have 4: "\<not> blankOrNotString (url ?b')" using u n by simp
  from invalid_create_rejected [of ?b 5 9 1 "[]" ?b' "\<lambda>u. None" "[]"] 1 2
  show ?thesis by (simp only: 3 4 if_False simp_thms)
qed

subsection \<open>Listing\<close>

lemma sortNewestFirst_filter:
  "sortNewestFirst M (filter P ds) = filter P (sortNewestFirst M ds)"
  by (simp add: sortNewestFirst_def filter_sort [symmetric] rev_filter)

lemma listQuery_empty_q: "listQuery user paths (Some []) tgs fav = listQuery user paths None tgs fav"
  by (simp add: listQuery_def)

lemma listQuery_no_tags:
  "tagArray t = [] \<Longrightarrow> listQuery user paths q (Some t) fav = listQuery user paths q None fav"
  by (simp add: listQuery_def)

lemma listQuery_not_true:
  "fav \<noteq> Some (lit ''true'') \<Longrightarrow> listQuery user paths q tgs fav = listQuery user paths q tgs None"
  by (simp add: listQuery_def)

lemma listQuery_plain:
  "listQuery user paths None None None =
     \<lparr>where_user = user, where_or = None, where_tags_in = None, where_isFavorite = None\<rparr>"
  by (simp add: listQuery_def lit_def)

lemma listQuery_term:
  "q \<noteq> [] \<Longrightarrow>
   listQuery user paths (Some q) tgs fav =
     (listQuery user paths None tgs fav)\<lparr>where_or := Some (map (\<lambda>path. (path, q)) paths)\<rparr>"
  by (simp add: listQuery_def Let_def split: option.splits)

lemma listQuery_no_or: "where_or (listQuery user paths None tgs fav) = None"
  by (simp add: listQuery_def Let_def split: option.splits)

lemma matches_or_update: "matches M (query\<lparr>where_or := x\<rparr>) alts d = matches M query alts d"
  by (simp add: matches_def)

lemma matches_Some: "matches M query (Some ms) d \<longleftrightarrow> matches M query None d \<and> orHolds M ms d"
  by (auto simp: matches_def)

lemma find_where_plain:
  "where_or query = None \<Longrightarrow> find_where regex M query st = Inr (filter (matches M query None) st)"
  by (simp add: find_where_def compileOr_def)

lemma find_where_term:
  "find_where regex M (query\<lparr>where_or := Some (map (\<lambda>path. (path, q)) paths)\<rparr>) st =
     (case those (map (\<lambda>path. map_option (Pair path) (regex q)) paths) of
        None \<Rightarrow> Inl OtherError
      | Some ms \<Rightarrow> Inr (filter (\<lambda>d. orHolds M ms d) (filter (matches M query None) st)))"
  by (auto simp: find_where_def compileOr_def comp_def matches_or_update matches_Some
      split: option.splits intro: filter_cong)

lemma orHolds_Note:
  "orHolds Note [(''title'', m), (''content'', m)] d \<longleftrightarrow> m (note_title d) \<or> m (note_content d)"
  by (simp add: orHolds_def Note_def)

lemma orHolds_Bookmark:
  "orHolds Bookmark [(''title'', m), (''description'', m), (''url'', m)] d \<longleftrightarrow>
     m (bm_title d) \<or> m (bm_description d) \<or> m (bm_url d)"
  by (simp add: orHolds_def Bookmark_def)

lemma listNotes_without_term:
  "listNotes regex user None tgs fav st =
     Reply 200 (ListBody (sortNewestFirst Note
       (filter (matches Note (listQuery user [''title'', ''content''] None tgs fav) None) st)))"
  by (simp add: listNotes_def find_where_plain listQuery_no_or)

lemma listBookmarks_without_term:
  "listBookmarks regex user None tgs fav st =
     Reply 200 (ListBody (sortNewestFirst Bookmark
       (filter (matches Bookmark (listQuery user [''title'', ''description'', ''url''] None tgs fav)
          None) st)))"
  by (simp add: listBookmarks_def find_where_plain listQuery_no_or)

lemma listNotes_with_term:
  assumes "q \<noteq> []"
  shows "listNotes regex user (Some q) tgs fav st =
     (case regex q of
        None \<Rightarrow> Reply 500 (ErrorBody ''Server error while fetching notes'')
      | Some m \<Rightarrow>
          Reply 200 (ListBody (filter (\<lambda>d. m (note_title d) \<or> m (note_content d))
            (sortNewestFirst Note
              (filter (matches Note (listQuery user [''title'', ''content''] None tgs fav) None)
                 st)))))"
  unfolding listNotes_def listQuery_term [OF assms] find_where_term
  by (simp add: orHolds_Note sortNewestFirst_filter split: option.splits)

lemma listBookmarks_with_term:
  assumes "q \<noteq> []"
  shows "listBookmarks regex user (Some q) tgs fav st =
     (case regex q of
        None \<Rightarrow> Reply 500 (ErrorBody ''Server error while fetching bookmarks'')
      | Some m \<Rightarrow>
          Reply 200 (ListBody
            (filter (\<lambda>d. m (bm_title d) \<or> m (bm_description d) \<or> m (bm_url d))
            (sortNewestFirst Bookmark
              (filter (matches Bookmark
                 (listQuery user [''title'', ''description'', ''url''] None tgs fav) None) st)))))"
  unfolding listBookmarks_def listQuery_term [OF assms] find_where_term
  by (simp add: orHolds_Bookmark sortNewestFirst_filter split: option.splits)

lemma matches_plain_Note:
  "matches Note (listQuery user paths None None None) None d \<longleftrightarrow> note_user d = user"
  by (simp add: listQuery_plain matches_def Note_def)

lemma matches_plain_Bookmark:
  "matches Bookmark (listQuery user paths None None None) None d \<longleftrightarrow> bm_user d = user"
  by (simp add: listQuery_plain matches_def Bookmark_def)

lemma matches_plain_Note_fun:
  "matches Note (listQuery user paths None None None) None = (\<lambda>d. note_user d = user)"
  by (simp add: fun_eq_iff matches_plain_Note)

lemma matches_plain_Bookmark_fun:
  "matches Bookmark (listQuery user paths None None None) None = (\<lambda>d. bm_user d = user)"
  by (simp add: fun_eq_iff matches_plain_Bookmark)

text \<open>
  Claim C10. In a listing, an empty \<^verbatim>\<open>q\<close>, a \<^verbatim>\<open>tags\<close> parameter that leaves no tag
  once split at the commas, trimmed and cleared of empty pieces (\<^verbatim>\<open>",, ,"\<close> for one),
  and a \<^verbatim>\<open>favorite\<close> parameter other than the string \<^verbatim>\<open>"true"\<close> each change nothing:
  the reply is that of the same request without the parameter. Without all three the
  reply lists every document of the caller, newest first.
\<close>

theorem inert_list_parameters:
  "listNotes regex user (Some []) tgs fav st = listNotes regex user None tgs fav st \<and>
   (tagArray t = [] \<longrightarrow>
      listNotes regex user q (Some t) fav st = listNotes regex user q None fav st) \<and>
   (fav \<noteq> Some (lit ''true'') \<longrightarrow>
      listNotes regex user q tgs fav st = listNotes regex user q tgs None st) \<and>
   listNotes regex user None None None st =
     Reply 200 (ListBody (sortNewestFirst Note (filter (\<lambda>d. note_user d = user) st))) \<and>
   listBookmarks regex user (Some []) tgs fav bst = listBookmarks regex user None tgs fav bst \<and>
   (tagArray t = [] \<longrightarrow>
      listBookmarks regex user q (Some t) fav bst = listBookmarks regex user q None fav bst) \<and>
   (fav \<noteq> Some (lit ''true'') \<longrightarrow>
      listBookmarks regex user q tgs fav bst = listBookmarks regex user q tgs None bst) \<and>
   listBookmarks regex user None None None bst =
     Reply 200 (ListBody (sortNewestFirst Bookmark (filter (\<lambda>d. bm_user d = user) bst))) \<and>
   tagArray (lit '',, ,'') = []"
proof -
  have "tagArray (lit '',, ,'') = []"
    by (simp add: tagArray_def lit_def trim_def isWhiteSpace_def nonEmpty_def)
  moreover have "listNotes regex user None None None st =
     Reply 200 (ListBody (sortNewestFirst Note (filter (\<lambda>d. note_user d = user) st)))"
    by (simp add: listNotes_without_term matches_plain_Note_fun)
  moreover have "listBookmarks regex user None None None bst =
     Reply 200 (ListBody (sortNewestFirst Bookmark (filter (\<lambda>d. bm_user d = user) bst)))"
    by (simp add: listBookmarks_without_term matches_plain_Bookmark_fun)
  moreover have "listNotes regex user q tgs fav st = listNotes regex user q tgs None st"
    and "listBookmarks regex user q tgs fav bst = listBookmarks regex user q tgs None bst"
    if "fav \<noteq> Some (lit ''true'')"
    by (simp_all only: listNotes_def listBookmarks_def listQuery_not_true [OF that])
  moreover have "listNotes regex user q (Some t) fav st = listNotes regex user q None fav st"
    and "listBookmarks regex user q (Some t) fav bst = listBookmarks regex user q None fav bst"
    if "tagArray t = []"
    by (simp_all only: listNotes_def listBookmarks_def listQuery_no_tags [OF that])
  moreover have "listNotes regex user (Some []) tgs fav st = listNotes regex user None tgs fav st"
    and "listBookmarks regex user (Some []) tgs fav bst = listBookmarks regex user None tgs fav bst"
    by (simp_all only: listNotes_def listBookmarks_def listQuery_empty_q)
  ultimately show ?thesis by blast
qed

theorem inert_list_parameters_witness:
  "tagArray (lit '',, ,'') = [] \<and> Some (lit ''false'') \<noteq> Some (lit ''true'') \<and>
   listNotes dotOrLiteral 1 (Some []) (Some (lit '',, ,'')) (Some (lit ''false''))
     [\<lparr>note_id = 1, note_user = 1, note_title = lit ''a'', note_content = lit ''b'',
       note_tags = [], note_isFavorite = Some False, note_createdAt = 3, note_updatedAt = 3\<rparr>,
      \<lparr>note_id = 2, note_user = 2, note_title = lit ''c'', note_content = lit ''d'',
       note_tags = [], note_isFavorite = Some True, note_createdAt = 4, note_updatedAt = 4\<rparr>,
      \<lparr>note_id = 3, note_user = 1, note_title = lit ''e'', note_content = lit ''f'',
       note_tags = [lit ''t''], note_isFavorite = Some True, note_createdAt = 5, note_updatedAt = 5\<rparr>] =
   Reply 200 (ListBody
     [\<lparr>note_id = 3, note_user = 1, note_title = lit ''e'', note_content = lit ''f'',
       note_tags = [lit ''t''], note_isFavorite = Some True, note_createdAt = 5, note_updatedAt = 5\<rparr>,
      \<lparr>note_id = 1, note_user = 1, note_title = lit ''a'', note_content = lit ''b'',
       note_tags = [], note_isFavorite = Some False, note_createdAt = 3, note_updatedAt = 3\<rparr>])"
proof -
  let ?st = "[\<lparr>note_id = 1, note_user = 1, note_title = lit ''a'', note_content = lit ''b'',
       note_tags = [], note_isFavorite = Some False, note_createdAt = 3, note_updatedAt = 3\<rparr>,
      \<lparr>note_id = 2, note_user = 2, note_title = lit ''c'', note_content = lit ''d'',
       note_tags = [], note_isFavorite = Some True, note_createdAt = 4, note_updatedAt = 4\<rparr>,
      \<lparr>note_id = 3, note_user = 1, note_title = lit ''e'', note_content = lit ''f'',
       note_tags = [lit ''t''], note_isFavorite = Some True, note_createdAt = 5, note_updatedAt = 5\<rparr>]"
  let ?t = "lit '',, ,''" and ?f = "Some (lit ''false'')"
  have f: "?f \<noteq> Some (lit ''true'')" by (simp add: lit_def)
  have e: "tagArray ?t = []"
    using inert_list_parameters [of dotOrLiteral 1 None None "[]" "[]" None "[]"] by blast
  have 1: "listNotes dotOrLiteral 1 (Some []) (Some ?t) ?f ?st = listNotes dotOrLiteral 1 None (Some ?t) ?f ?st"
    using inert_list_parameters [of dotOrLiteral 1 "Some ?t" ?f ?st "[]" None "[]"] by blast
  have 2: "listNotes dotOrLiteral 1 None (Some ?t) ?f ?st = listNotes dotOrLiteral 1 None None ?f ?st"
    using inert_list_parameters [of dotOrLiteral 1 None ?f ?st ?t None "[]"] e by blast
  have 3: "listNotes dotOrLiteral 1 None None ?f ?st = listNotes dotOrLiteral 1 None None None ?st"
    using inert_list_parameters [of dotOrLiteral 1 None ?f ?st "[]" None "[]"] f by blast
  have 4: "listNotes dotOrLiteral 1 None None None ?st =
     Reply 200 (ListBody (sortNewestFirst Note (filter (\<lambda>d. note_user d = 1) ?st)))"
    using inert_list_parameters [of dotOrLiteral 1 None None ?st "[]" None "[]"] by blast
  have 5: "sortNewestFirst Note (filter (\<lambda>d. note_user d = 1) ?st) =
     [\<lparr>note_id = 3, note_user = 1, note_title = lit ''e'', note_content = lit ''f'',
       note_tags = [lit ''t''], note_isFavorite = Some True, note_createdAt = 5, note_updatedAt = 5\<rparr>,
      \<lparr>note_id = 1, note_user = 1, note_title = lit ''a'', note_content = lit ''b'',
       note_tags = [], note_isFavorite = Some False, note_createdAt = 3, note_updatedAt = 3\<rparr>]"
    by (simp add: sortNewestFirst_def Note_def)
  show ?thesis using e f 1 2 3 4 5 by (simp only: simp_thms)
qed

text \<open>
  Claim C6, as the code has it. A term that is present and not empty is handed to the
  store as a regular expression with the option \<^verbatim>\<open>i\<close>, not as a text to look for. The
  listing is the listing of the same request without the term, restricted to the
  documents in which the pattern matches the title or the content (notes), or the title,
  the description or the URL (bookmarks); with no other parameter these are the caller's
  documents in which it matches one of those fields. A term the store rejects as a
  pattern is answered with 500.
\<close>

theorem term_is_a_pattern:
  assumes "q \<noteq> []"
  shows
   "(\<exists>L. listNotes regex user None tgs fav st = Reply 200 (ListBody L) \<and>
         listNotes regex user (Some q) tgs fav st =
           (case regex q of
              None \<Rightarrow> Reply 500 (ErrorBody ''Server error while fetching notes'')
            | Some m \<Rightarrow>
                Reply 200 (ListBody (filter (\<lambda>d. m (note_title d) \<or> m (note_content d)) L)))) \<and>
    (\<exists>L. listBookmarks regex user None tgs fav bst = Reply 200 (ListBody L) \<and>
         listBookmarks regex user (Some q) tgs fav bst =
           (case regex q of
              None \<Rightarrow> Reply 500 (ErrorBody ''Server error while fetching bookmarks'')
            | Some m \<Rightarrow>
                Reply 200 (ListBody
                  (filter (\<lambda>d. m (bm_title d) \<or> m (bm_description d) \<or> m (bm_url d)) L)))) \<and>
    listNotes regex user (Some q) None None st =
      (case regex q of
         None \<Rightarrow> Reply 500 (ErrorBody ''Server error while fetching notes'')
       | Some m \<Rightarrow>
           Reply 200 (ListBody (sortNewestFirst Note
             (filter (\<lambda>d. note_user d = user \<and> (m (note_title d) \<or> m (note_content d))) st)))) \<and>
    listBookmarks regex user (Some q) None None bst =
      (case regex q of
         None \<Rightarrow> Reply 500 (ErrorBody ''Server error while fetching bookmarks'')
       | Some m \<Rightarrow>
           Reply 200 (ListBody (sortNewestFirst Bookmark
             (filter (\<lambda>d. bm_user d = user \<and>
                (m (bm_title d) \<or> m (bm_description d) \<or> m (bm_url d))) bst))))"
proof (intro conjI)
  show "\<exists>L. listNotes regex user None tgs fav st = Reply 200 (ListBody L) \<and>
         listNotes regex user (Some q) tgs fav st =
           (case regex q of
              None \<Rightarrow> Reply 500 (ErrorBody ''Server error while fetching notes'')
            | Some m \<Rightarrow>
                Reply 200 (ListBody (filter (\<lambda>d. m (note_title d) \<or> m (note_content d)) L)))"
    using listNotes_without_term listNotes_with_term [OF assms] by blast
  show "\<exists>L. listBookmarks regex user None tgs fav bst = Reply 200 (ListBody L) \<and>
         listBookmarks regex user (Some q) tgs fav bst =
           (case regex q of
              None \<Rightarrow> Reply 500 (ErrorBody ''Server error while fetching bookmarks'')
            | Some m \<Rightarrow>
                Reply 200 (ListBody
                  (filter (\<lambda>d. m (bm_title d) \<or> m (bm_description d) \<or> m (bm_url d)) L)))"
    using listBookmarks_without_term listBookmarks_with_term [OF assms] by blast
  show "listNotes regex user (Some q) None None st =
      (case regex q of
         None \<Rightarrow> Reply 500 (ErrorBody ''Server error while fetching notes'')
       | Some m \<Rightarrow>
           Reply 200 (ListBody (sortNewestFirst Note
             (filter (\<lambda>d. note_user d = user \<and> (m (note_title d) \<or> m (note_content d))) st))))"
    by (simp add: listNotes_with_term [OF assms] matches_plain_Note_fun
        sortNewestFirst_filter [symmetric] split: option.splits)
  show "listBookmarks regex user (Some q) None None bst =
      (case regex q of
         None \<Rightarrow> Reply 500 (ErrorBody ''Server error while fetching bookmarks'')
       | Some m \<Rightarrow>
           Reply 200 (ListBody (sortNewestFirst Bookmark
             (filter (\<lambda>d. bm_user d = user \<and>
                (m (bm_title d) \<or> m (bm_description d) \<or> m (bm_url d))) bst))))"
    by (simp add: listBookmarks_with_term [OF assms] matches_plain_Bookmark_fun
        sortNewestFirst_filter [symmetric] split: option.splits)
qed

theorem term_is_a_pattern_witness:
  "lit ''A.'' \<noteq> [] \<and>
   listNotes dotOrLiteral 1 (Some (lit ''A.'')) None None
     [\<lparr>note_id = 1, note_user = 1, note_title = lit ''Cab'', note_content = lit ''-'',
       note_tags = [], note_isFavorite = Some False, note_createdAt = 3, note_updatedAt = 3\<rparr>,
      \<lparr>note_id = 2, note_user = 1, note_title = lit ''a'', note_content = lit ''b'',
       note_tags = [], note_isFavorite = Some False, note_createdAt = 4, note_updatedAt = 4\<rparr>,
      \<lparr>note_id = 3, note_user = 2, note_title = lit ''Cab'', note_content = lit ''-'',
       note_tags = [], note_isFavorite = Some False, note_createdAt = 5, note_updatedAt = 5\<rparr>] =
   Reply 200 (ListBody
     [\<lparr>note_id = 1, note_user = 1, note_title = lit ''Cab'', note_content = lit ''-'',
       note_tags = [], note_isFavorite = Some False, note_createdAt = 3, note_updatedAt = 3\<rparr>])"
proof -
  let ?st = "[\<lparr>note_id = 1, note_user = 1, note_title = lit ''Cab'', note_content = lit ''-'',
       note_tags = [], note_isFavorite = Some False, note_createdAt = 3, note_updatedAt = 3\<rparr>,
      \<lparr>note_id = 2, note_user = 1, note_title = lit ''a'', note_content = lit ''b'',
       note_tags = [], note_isFavorite = Some False, note_createdAt = 4, note_updatedAt = 4\<rparr>,
      \<lparr>note_id = 3, note_user = 2, note_title = lit ''Cab'', note_content = lit ''-'',
       note_tags = [], note_isFavorite = Some False, note_createdAt = 5, note_updatedAt = 5\<rparr>]"
  have n: "lit ''A.'' \<noteq> []" by (simp add: lit_def)
  have r: "dotOrLiteral (lit ''A.'') = Some (matchesSomewhere (lit ''A.''))"
    by (simp add: dotOrLiteral_def lit_def isSpecial_def)
  have f: "sortNewestFirst Note (filter (\<lambda>d. note_user d = 1 \<and>
      (matchesSomewhere (lit ''A.'') (note_title d) \<or> matchesSomewhere (lit ''A.'') (note_content d))) ?st) =
     [\<lparr>note_id = 1, note_user = 1, note_title = lit ''Cab'', note_content = lit ''-'',
       note_tags = [], note_isFavorite = Some False, note_createdAt = 3, note_updatedAt = 3\<rparr>]"
    by (simp add: sortNewestFirst_def Note_def lit_def lowerCase_def)
  from term_is_a_pattern [OF n, of dotOrLiteral 1 None None ?st "[]"]
  have "listNotes dotOrLiteral 1 (Some (lit ''A.'')) None None ?st =
      (case dotOrLiteral (lit ''A.'') of
         None \<Rightarrow> Reply 500 (ErrorBody ''Server error while fetching notes'')
       | Some m \<Rightarrow>
           Reply 200 (ListBody (sortNewestFirst Note
             (filter (\<lambda>d. note_user d = 1 \<and> (m (note_title d) \<or> m (note_content d))) ?st))))"
    by blast
  then show ?thesis using n by (simp only: r f option.case simp_thms)
qed

theorem term_substring_counterexample:
  "listNotes dotOrLiteral 1 (Some (lit ''.'')) None None
     [\<lparr>note_id = 1, note_user = 1, note_title = lit ''x'', note_content = lit ''y'',
       note_tags = [], note_isFavorite = Some False, note_createdAt = 0, note_updatedAt = 0\<rparr>] =
   Reply 200 (ListBody
     [\<lparr>note_id = 1, note_user = 1, note_title = lit ''x'', note_content = lit ''y'',
       note_tags = [], note_isFavorite = Some False, note_createdAt = 0, note_updatedAt = 0\<rparr>]) \<and>
   \<not> occursIn (lit ''.'') (lit ''x'') \<and> \<not> occursIn (lit ''.'') (lit ''y'')"
proof -
  have r: "dotOrLiteral (lit ''.'') = Some (matchesSomewhere (lit ''.''))"
    by (simp add: dotOrLiteral_def lit_def)
  have "lit ''.'' \<noteq> []" by (simp add: lit_def)
  then have "listNotes dotOrLiteral 1 (Some (lit ''.'')) None None
     [\<lparr>note_id = 1, note_user = 1, note_title = lit ''x'', note_content = lit ''y'',
       note_tags = [], note_isFavorite = Some False, note_createdAt = 0, note_updatedAt = 0\<rparr>] =
   Reply 200 (ListBody
     [\<lparr>note_id = 1, note_user = 1, note_title = lit ''x'', note_content = lit ''y'',
       note_tags = [], note_isFavorite = Some False, note_createdAt = 0, note_updatedAt = 0\<rparr>])"
    by (simp add: listNotes_with_term r matches_plain_Note_fun)
       (simp add: sortNewestFirst_def Note_def lit_def)
  moreover have "\<not> occursIn (lit ''.'') (lit ''x'')" "\<not> occursIn (lit ''.'') (lit ''y'')"
    by (simp_all add: lit_def lowerCase_def)
  ultimately show ?thesis by (intro conjI)
qed

subsection \<open>One document by identifier and owner\<close>

lemma removeFirst_absent: "\<forall>d\<in>set st. \<not> P d \<Longrightarrow> removeFirst P st = st"
  by (induction st) auto

lemma updateFirst_absent: "\<forall>d\<in>set st. \<not> P d \<Longrightarrow> updateFirst P f st = st"
  by (induction st) auto

lemma find_absent: "\<forall>d\<in>set st. \<not> P d \<Longrightarrow> find P st = None"
  by (simp add: find_None_iff)

lemma findOne_cast:
  "cast idParam = Some i \<Longrightarrow> findOne cast M idParam user st = Inr (find (byIdAndUser M i user) st)"
  by (simp add: findOne_def)

lemma findOneAndDelete_absent:
  "cast idParam = Some i \<Longrightarrow> \<forall>d\<in>set st. \<not> byIdAndUser M i user d \<Longrightarrow>
   findOneAndDelete cast M idParam user st = Inr (None, st)"
  by (simp add: findOneAndDelete_def find_absent removeFirst_absent)

lemma findOneAndUpdate_absent:
  "cast idParam = Some i \<Longrightarrow> \<forall>d\<in>set st. \<not> byIdAndUser M i user d \<Longrightarrow>
   findOneAndUpdate cast M idParam user change st =
     (case change of Inl e \<Rightarrow> Inl e | Inr f \<Rightarrow> Inr (None, st))"
  by (simp add: findOneAndUpdate_def find_absent updateFirst_absent split: sum.splits)

lemma byIdAndUser_Note: "byIdAndUser Note i user d \<longleftrightarrow> note_id d = i \<and> note_user d = user"
  by (simp add: byIdAndUser_def Note_def)

lemma byIdAndUser_Bookmark: "byIdAndUser Bookmark i user d \<longleftrightarrow> bm_id d = i \<and> bm_user d = user"
  by (simp add: byIdAndUser_def Bookmark_def)

lemma updateNote_absent:
  assumes "cast idParam = Some i" "\<forall>d\<in>set st. \<not> (note_id d = i \<and> note_user d = user)"
  shows "updateNote now cast user idParam b st =
     (case noteUpdateData b of
        Inl r \<Rightarrow> r
      | Inr u \<Rightarrow>
          (case Note_change now u of
             Inl (ValidationError errors) \<Rightarrow> Reply 400 (ErrorBody (joinMessages errors))
           | Inl CastError \<Rightarrow> Reply 400 (ErrorBody ''Invalid note ID'')
           | Inl OtherError \<Rightarrow> Reply 500 (ErrorBody ''Server error while updating note'')
           | Inr f \<Rightarrow> Reply 404 (ErrorBody ''Note not found'')), st)"
proof -
  have "\<forall>d\<in>set st. \<not> byIdAndUser Note i user d"
    using assms(2) by (simp add: byIdAndUser_Note)
  then have "findOneAndUpdate cast Note idParam user change st =
     (case change of Inl e \<Rightarrow> Inl e | Inr f \<Rightarrow> Inr (None, st))" for change
    using assms(1) by (rule findOneAndUpdate_absent [rotated])
  then show ?thesis
    by (simp add: updateNote_def split: sum.splits store_error.splits)
qed

lemma updateBookmark_absent:
  assumes "cast idParam = Some i" "\<forall>d\<in>set st. \<not> (bm_id d = i \<and> bm_user d = user)"
  shows "updateBookmark now cast user idParam b st =
     (case bookmarkUpdateData b of
        Inl r \<Rightarrow> r
      | Inr u \<Rightarrow>
          (case Bookmark_change now u of
             Inl (ValidationError errors) \<Rightarrow> Reply 400 (ErrorBody (joinMessages errors))
           | Inl CastError \<Rightarrow> Reply 400 (ErrorBody ''Invalid bookmark ID'')
           | Inl OtherError \<Rightarrow> Reply 500 (ErrorBody ''Server error while updating bookmark'')
           | Inr f \<Rightarrow> Reply 404 (ErrorBody ''Bookmark not found'')), st)"
proof -
  have "\<forall>d\<in>set st. \<not> byIdAndUser Bookmark i user d"
    using assms(2) by (simp add: byIdAndUser_Bookmark)
  then have "findOneAndUpdate cast Bookmark idParam user change st =
     (case change of Inl e \<Rightarrow> Inl e | Inr f \<Rightarrow> Inr (None, st))" for change
    using assms(1) by (rule findOneAndUpdate_absent [rotated])
  then show ?thesis
    by (simp add: updateBookmark_def split: sum.splits store_error.splits)
qed

lemma noteUpdateData_status:
  "noteUpdateData b = Inl r \<Longrightarrow> status r = 400 \<or> status r = 500"
  by (auto simp: noteUpdateData_def split: if_splits option.splits)

lemma bookmarkUpdateData_status:
  "bookmarkUpdateData b = Inl r \<Longrightarrow> status r = 400 \<or> status r = 500"
  by (auto simp: bookmarkUpdateData_def split: if_splits option.splits prod.splits)

lemma getNote_absent:
  assumes "cast idParam = Some i" "\<forall>d\<in>set st. \<not> (note_id d = i \<and> note_user d = user)"
  shows "getNote cast user idParam st = Reply 404 (ErrorBody ''Note not found'')"
proof -
  have "find (byIdAndUser Note i user) st = None"
    using assms(2) by (intro find_absent) (simp add: byIdAndUser_Note)
  then show ?thesis using assms(1) by (simp add: getNote_def findOne_def)
qed

lemma getBookmark_absent:
  assumes "cast idParam = Some i" "\<forall>d\<in>set st. \<not> (bm_id d = i \<and> bm_user d = user)"
  shows "getBookmark cast user idParam st = Reply 404 (ErrorBody ''Bookmark not found'')"
proof -
  have "find (byIdAndUser Bookmark i user) st = None"
    using assms(2) by (intro find_absent) (simp add: byIdAndUser_Bookmark)
  then show ?thesis using assms(1) by (simp add: getBookmark_def findOne_def)
qed

lemma deleteNote_absent:
  assumes "cast idParam = Some i" "\<forall>d\<in>set st. \<not> (note_id d = i \<and> note_user d = user)"
  shows "deleteNote cast user idParam st = (Reply 404 (ErrorBody ''Note not found''), st)"
proof -
  have "\<forall>d\<in>set st. \<not> byIdAndUser Note i user d"
    using assms(2) by (simp add: byIdAndUser_Note)
  then have "findOneAndDelete cast Note idParam user st = Inr (None, st)"
    using assms(1) by (rule findOneAndDelete_absent [rotated])
  then show ?thesis by (simp add: deleteNote_def)
qed

lemma deleteBookmark_absent:
  assumes "cast idParam = Some i" "\<forall>d\<in>set st. \<not> (bm_id d = i \<and> bm_user d = user)"
  shows "deleteBookmark cast user idParam st = (Reply 404 (ErrorBody ''Bookmark not found''), st)"
proof -
  have "\<forall>d\<in>set st. \<not> byIdAndUser Bookmark i user d"
    using assms(2) by (simp add: byIdAndUser_Bookmark)
  then have "findOneAndDelete cast Bookmark idParam user st = Inr (None, st)"
    using assms(1) by (rule findOneAndDelete_absent [rotated])
  then show ?thesis by (simp add: deleteBookmark_def)
qed

text \<open>
  Claim C1, as the code has it. The identifier is well formed and no document with it
  belongs to the caller (it belongs to someone else, or to no one). Then get-one and
  delete answer 404. An update is answered as it would be on an empty collection: with
  404 when the body passes the handler and the schema, and otherwise with the 400 of
  the validation or the 500 of a failed coercion, which come before the search. No
  operation changes the collection, and none answers 403.
\<close>

theorem foreign_record_not_found:
  assumes "cast idParam = Some i"
    and "\<forall>d\<in>set st. \<not> (note_id d = i \<and> note_user d = user)"
    and "\<forall>d\<in>set bst. \<not> (bm_id d = i \<and> bm_user d = user)"
  shows
   "getNote cast user idParam st = Reply 404 (ErrorBody ''Note not found'') \<and>
    deleteNote cast user idParam st = (Reply 404 (ErrorBody ''Note not found''), st) \<and>
    updateNote now cast user idParam b st = (fst (updateNote now cast user idParam b []), st) \<and>
    status (fst (updateNote now cast user idParam b st)) \<in> {400, 404, 500} \<and>
    (\<forall>u f. noteUpdateData b = Inr u \<and> Note_change now u = Inr f \<longrightarrow>
       updateNote now cast user idParam b st = (Reply 404 (ErrorBody ''Note not found''), st)) \<and>
    getBookmark cast user idParam bst = Reply 404 (ErrorBody ''Bookmark not found'') \<and>
    deleteBookmark cast user idParam bst = (Reply 404 (ErrorBody ''Bookmark not found''), bst) \<and>
    updateBookmark now cast user idParam b bst = (fst (updateBookmark now cast user idParam b []), bst) \<and>
    status (fst (updateBookmark now cast user idParam b bst)) \<in> {400, 404, 500} \<and>
    (\<forall>u f. bookmarkUpdateData b = Inr u \<and> Bookmark_change now u = Inr f \<longrightarrow>
       updateBookmark now cast user idParam b bst =
         (Reply 404 (ErrorBody ''Bookmark not found''), bst))"
proof -
  note n = updateNote_absent [of cast idParam i _ user now b, OF assms(1)]
  note m = updateBookmark_absent [of cast idParam i _ user now b, OF assms(1)]
  have n1: "updateNote now cast user idParam b st = (fst (updateNote now cast user idParam b []), st)"
    using n [of st] n [of "[]"] assms(2) by simp
  have m1: "updateBookmark now cast user idParam b bst =
      (fst (updateBookmark now cast user idParam b []), bst)"
    using m [of bst] m [of "[]"] assms(3) by simp
  have n2: "status (fst (updateNote now cast user idParam b st)) \<in> {400, 404, 500}"
    using n [of st] assms(2) noteUpdateData_status [of b]
    by (auto split: sum.splits store_error.splits)
  have m2: "status (fst (updateBookmark now cast user idParam b bst)) \<in> {400, 404, 500}"
    using m [of bst] assms(3) bookmarkUpdateData_status [of b]
    by (auto split: sum.splits store_error.splits)
  have n3: "\<forall>u f. noteUpdateData b = Inr u \<and> Note_change now u = Inr f \<longrightarrow>
       updateNote now cast user idParam b st = (Reply 404 (ErrorBody ''Note not found''), st)"
    using n [of st] assms(2) by auto
  have m3: "\<forall>u f. bookmarkUpdateData b = Inr u \<and> Bookmark_change now u = Inr f \<longrightarrow>
       updateBookmark now cast user idParam b bst =
         (Reply 404 (ErrorBody ''Bookmark not found''), bst)"
    using m [of bst] assms(3) by auto
  show ?thesis
    using getNote_absent [of cast idParam i st user, OF assms(1,2)]
      deleteNote_absent [of cast idParam i st user, OF assms(1,2)]
      getBookmark_absent [of cast idParam i bst user, OF assms(1,3)]
      deleteBookmark_absent [of cast idParam i bst user, OF assms(1,3)]
      n1 n2 n3 m1 m2 m3
    by (intro conjI)
qed

theorem foreign_record_not_found_witness:
  "castObjectId (lit ''00000000000000000000002a'') = Some 42 \<and>
   getNote castObjectId 1 (lit ''00000000000000000000002a'')
     [\<lparr>note_id = 42, note_user = 2, note_title = lit ''a'', note_content = lit ''b'',
       note_tags = [], note_isFavorite = Some False, note_createdAt = 3, note_updatedAt = 3\<rparr>] =
     Reply 404 (ErrorBody ''Note not found'') \<and>
   deleteNote castObjectId 1 (lit ''00000000000000000000002a'')
     [\<lparr>note_id = 42, note_user = 2, note_title = lit ''a'', note_content = lit ''b'',
       note_tags = [], note_isFavorite = Some False, note_createdAt = 3, note_updatedAt = 3\<rparr>] =
     (Reply 404 (ErrorBody ''Note not found''),
      [\<lparr>note_id = 42, note_user = 2, note_title = lit ''a'', note_content = lit ''b'',
        note_tags = [], note_isFavorite = Some False, note_createdAt = 3, note_updatedAt = 3\<rparr>]) \<and>
   updateNote 9 castObjectId 1 (lit ''00000000000000000000002a'')
     \<lparr>url = JUndefined, title = JStr (lit ''new''), content = JUndefined,
      description = JUndefined, tags = JUndefined, isFavorite = JUndefined\<rparr>
     [\<lparr>note_id = 42, note_user = 2, note_title = lit ''a'', note_content = lit ''b'',
       note_tags = [], note_isFavorite = Some False, note_createdAt = 3, note_updatedAt = 3\<rparr>] =
     (Reply 404 (ErrorBody ''Note not found''),
      [\<lparr>note_id = 42, note_user = 2, note_title = lit ''a'', note_content = lit ''b'',
        note_tags = [], note_isFavorite = Some False, note_createdAt = 3, note_updatedAt = 3\<rparr>])"
proof -
  let ?id = "lit ''00000000000000000000002a''"
  let ?st = "[\<lparr>note_id = 42, note_user = 2, note_title = lit ''a'', note_content = lit ''b'',
       note_tags = [], note_isFavorite = Some False, note_createdAt = 3, note_updatedAt = 3\<rparr>]"
  let ?b = "\<lparr>url = JUndefined, title = JStr (lit ''new''), content = JUndefined,
      description = JUndefined, tags = JUndefined, isFavorite = JUndefined\<rparr>"
  let ?u = "\<lparr>set_url = None, set_title = Some (lit ''new''), set_content = None,
      set_description = None, set_tags = None, set_isFavorite = None\<rparr>"
  have c: "castObjectId ?id = Some 42"
    by (simp add: castObjectId_def lit_def hexDigit_def)
  have o: "\<forall>d\<in>set ?st. \<not> (note_id d = 42 \<and> note_user d = 1)" by simp
  have e: "\<forall>d\<in>set ([]::bookmark list). \<not> (bm_id d = 42 \<and> bm_user d = 1)" by simp
  have t: "trim (lit ''new'') = lit ''new''" "lit ''new'' \<noteq> []"
    by (simp_all add: trim_def lit_def isWhiteSpace_def)
  have u: "noteUpdateData ?b = Inr ?u"
    using t by (simp add: noteUpdateData_def present_def)
  have "\<exists>f. Note_change 9 ?u = Inr f"
    using t by (simp add: Note_change_def castFavorite_def onSet_def titleErrors_def lit_def)
  then obtain f where f: "Note_change 9 ?u = Inr f" ..
  from foreign_record_not_found [of castObjectId ?id 42 ?st 1 "[]" 9 ?b, OF c o e] u f
  have "getNote castObjectId 1 ?id ?st = Reply 404 (ErrorBody ''Note not found'')"
    and "deleteNote castObjectId 1 ?id ?st = (Reply 404 (ErrorBody ''Note not found''), ?st)"
    and "updateNote 9 castObjectId 1 ?id ?b ?st = (Reply 404 (ErrorBody ''Note not found''), ?st)"
    by blast+
  with c show ?thesis by (intro conjI)
qed

theorem foreign_update_counterexample:
  "castObjectId (lit ''00000000000000000000002a'') = Some 42 \<and>
   updateNote 9 castObjectId 1 (lit ''00000000000000000000002a'')
     \<lparr>url = JUndefined, title = JStr [], content = JUndefined,
      description = JUndefined, tags = JUndefined, isFavorite = JUndefined\<rparr>
     [\<lparr>note_id = 42, note_user = 2, note_title = lit ''a'', note_content = lit ''b'',
       note_tags = [], note_isFavorite = Some False, note_createdAt = 3, note_updatedAt = 3\<rparr>] =
     (Reply 400 (ErrorBody ''Title is required''),
      [\<lparr>note_id = 42, note_user = 2, note_title = lit ''a'', note_content = lit ''b'',
        note_tags = [], note_isFavorite = Some False, note_createdAt = 3, note_updatedAt = 3\<rparr>])"
  by (simp add: castObjectId_def lit_def hexDigit_def updateNote_def noteUpdateData_def
      present_def)

subsection \<open>The reply by the shape of the identifier\<close>

lemma find_cases:
  obtains "find P st = None" "\<not> (\<exists>d\<in>set st. P d)"
  | d where "find P st = Some d" "\<exists>d\<in>set st. P d"
proof (cases "find P st")
  case None
  then show ?thesis using that(1) by (simp add: find_None_iff)
next
  case (Some d)
  then have "find P st \<noteq> None" by simp
  then have "\<exists>d\<in>set st. P d" by (auto simp: find_None_iff)
  then show ?thesis using that(2) Some by blast
qed

lemma getNote_status:
  "cast idParam = Some i \<Longrightarrow>
   status (getNote cast user idParam st) =
     (if \<exists>d\<in>set st. note_id d = i \<and> note_user d = user then 200 else 404)"
  by (cases rule: find_cases [of "byIdAndUser Note i user" st])
     (simp_all add: getNote_def findOne_def byIdAndUser_Note)

lemma getBookmark_status:
  "cast idParam = Some i \<Longrightarrow>
   status (getBookmark cast user idParam st) =
     (if \<exists>d\<in>set st. bm_id d = i \<and> bm_user d = user then 200 else 404)"
  by (cases rule: find_cases [of "byIdAndUser Bookmark i user" st])
     (simp_all add: getBookmark_def findOne_def byIdAndUser_Bookmark)

lemma deleteNote_status:
  "cast idParam = Some i \<Longrightarrow>
   status (fst (deleteNote cast user idParam st)) =
     (if \<exists>d\<in>set st. note_id d = i \<and> note_user d = user then 200 else 404)"
  by (cases rule: find_cases [of "byIdAndUser Note i user" st])
     (simp_all add: deleteNote_def findOneAndDelete_def byIdAndUser_Note)

lemma deleteBookmark_status:
  "cast idParam = Some i \<Longrightarrow>
   status (fst (deleteBookmark cast user idParam st)) =
     (if \<exists>d\<in>set st. bm_id d = i \<and> bm_user d = user then 200 else 404)"
  by (cases rule: find_cases [of "byIdAndUser Bookmark i user" st])
     (simp_all add: deleteBookmark_def findOneAndDelete_def byIdAndUser_Bookmark)

lemma updateNote_status:
  "cast idParam = Some i \<Longrightarrow> noteUpdateData b = Inr u \<Longrightarrow> Note_change now u = Inr f \<Longrightarrow>
   status (fst (updateNote now cast user idParam b st)) =
     (if \<exists>d\<in>set st. note_id d = i \<and> note_user d = user then 200 else 404)"
  by (cases rule: find_cases [of "byIdAndUser Note i user" st])
     (simp_all add: updateNote_def findOneAndUpdate_def byIdAndUser_Note)

lemma updateBookmark_status:
  "cast idParam = Some i \<Longrightarrow> bookmarkUpdateData b = Inr u \<Longrightarrow> Bookmark_change now u = Inr f \<Longrightarrow>
   status (fst (updateBookmark now cast user idParam b st)) =
     (if \<exists>d\<in>set st. bm_id d = i \<and> bm_user d = user then 200 else 404)"
  by (cases rule: find_cases [of "byIdAndUser Bookmark i user" st])
     (simp_all add: updateBookmark_def findOneAndUpdate_def byIdAndUser_Bookmark)

lemma malformed_id_notes:
  assumes "cast idParam = None"
  shows "getNote cast user idParam st = Reply 400 (ErrorBody ''Invalid note ID'')"
    and "deleteNote cast user idParam st = (Reply 400 (ErrorBody ''Invalid note ID''), st)"
    and "noteUpdateData b = Inr u \<Longrightarrow>
         updateNote now cast user idParam b st = (Reply 400 (ErrorBody ''Invalid note ID''), st)"
  using assms
  by (simp_all add: getNote_def findOne_def deleteNote_def findOneAndDelete_def updateNote_def
      findOneAndUpdate_def)

lemma malformed_id_bookmarks:
  assumes "cast idParam = None"
  shows "getBookmark cast user idParam st = Reply 400 (ErrorBody ''Invalid bookmark ID'')"
    and "deleteBookmark cast user idParam st =
           (Reply 400 (ErrorBody ''Invalid bookmark ID''), st)"
    and "bookmarkUpdateData b = Inr u \<Longrightarrow>
         updateBookmark now cast user idParam b st =
           (Reply 400 (ErrorBody ''Invalid bookmark ID''), st)"
  using assms
  by (simp_all add: getBookmark_def findOne_def deleteBookmark_def findOneAndDelete_def
      updateBookmark_def findOneAndUpdate_def)

text \<open>
  Claim C8, as the code has it. A malformed identifier is not folded into "not found":
  every get-one, delete and update handler answers it with 400 and the message
  \<^verbatim>\<open>Invalid note ID\<close> or \<^verbatim>\<open>Invalid bookmark ID\<close> (an update once its body has passed
  the handler's validation). With a well-formed identifier the answer is 404 exactly
  when no document with it belongs to the caller, whether it belongs to someone else or
  to no one, and 200 otherwise (an update once its body has passed the handler and the
  schema).
\<close>

theorem identifier_outcomes:
  "(cast idParam = None \<longrightarrow>
      getNote cast user idParam st = Reply 400 (ErrorBody ''Invalid note ID'') \<and>
      deleteNote cast user idParam st = (Reply 400 (ErrorBody ''Invalid note ID''), st) \<and>
      (\<forall>u. noteUpdateData b = Inr u \<longrightarrow>
         updateNote now cast user idParam b st = (Reply 400 (ErrorBody ''Invalid note ID''), st)) \<and>
      getBookmark cast user idParam bst = Reply 400 (ErrorBody ''Invalid bookmark ID'') \<and>
      deleteBookmark cast user idParam bst =
        (Reply 400 (ErrorBody ''Invalid bookmark ID''), bst) \<and>
      (\<forall>u. bookmarkUpdateData b = Inr u \<longrightarrow>
         updateBookmark now cast user idParam b bst =
           (Reply 400 (ErrorBody ''Invalid bookmark ID''), bst))) \<and>
   (\<forall>i. cast idParam = Some i \<longrightarrow>
      status (getNote cast user idParam st) =
        (if \<exists>d\<in>set st. note_id d = i \<and> note_user d = user then 200 else 404) \<and>
      status (fst (deleteNote cast user idParam st)) =
        (if \<exists>d\<in>set st. note_id d = i \<and> note_user d = user then 200 else 404) \<and>
      (\<forall>u f. noteUpdateData b = Inr u \<and> Note_change now u = Inr f \<longrightarrow>
         status (fst (updateNote now cast user idParam b st)) =
           (if \<exists>d\<in>set st. note_id d = i \<and> note_user d = user then 200 else 404)) \<and>
      status (getBookmark cast user idParam bst) =
        (if \<exists>d\<in>set bst. bm_id d = i \<and> bm_user d = user then 200 else 404) \<and>
      status (fst (deleteBookmark cast user idParam bst)) =
        (if \<exists>d\<in>set bst. bm_id d = i \<and> bm_user d = user then 200 else 404) \<and>
      (\<forall>u f. bookmarkUpdateData b = Inr u \<and> Bookmark_change now u = Inr f \<longrightarrow>
         status (fst (updateBookmark now cast user idParam b bst)) =
           (if \<exists>d\<in>set bst. bm_id d = i \<and> bm_user d = user then 200 else 404)))"
proof (intro conjI impI allI)
  fix i u and f :: "note \<Rightarrow> note" and g :: "bookmark \<Rightarrow> bookmark"
  assume c: "cast idParam = Some i"
  show "status (getNote cast user idParam st) =
        (if \<exists>d\<in>set st. note_id d = i \<and> note_user d = user then 200 else 404)"
    using c by (rule getNote_status)
  show "status (fst (deleteNote cast user idParam st)) =
        (if \<exists>d\<in>set st. note_id d = i \<and> note_user d = user then 200 else 404)"
    using c by (rule deleteNote_status)
  show "status (getBookmark cast user idParam bst) =
        (if \<exists>d\<in>set bst. bm_id d = i \<and> bm_user d = user then 200 else 404)"
    using c by (rule getBookmark_status)
  show "status (fst (deleteBookmark cast user idParam bst)) =
        (if \<exists>d\<in>set bst. bm_id d = i \<and> bm_user d = user then 200 else 404)"
    using c by (rule deleteBookmark_status)
  show "status (fst (updateNote now cast user idParam b st)) =
           (if \<exists>d\<in>set st. note_id d = i \<and> note_user d = user then 200 else 404)"
    if "noteUpdateData b = Inr u \<and> Note_change now u = Inr f"
    using c that by (blast intro: updateNote_status)
  show "status (fst (updateBookmark now cast user idParam b bst)) =
           (if \<exists>d\<in>set bst. bm_id d = i \<and> bm_user d = user then 200 else 404)"
    if "bookmarkUpdateData b = Inr u \<and> Bookmark_change now u = Inr g"
    using c that by (blast intro: updateBookmark_status)
qed (simp_all add: malformed_id_notes malformed_id_bookmarks)

theorem identifier_outcomes_witness:
  "castObjectId (lit ''not-an-id'') = None \<and>
   deleteNote castObjectId 1 (lit ''not-an-id'')
     [\<lparr>note_id = 42, note_user = 2, note_title = lit ''a'', note_content = lit ''b'',
       note_tags = [], note_isFavorite = Some False, note_createdAt = 3, note_updatedAt = 3\<rparr>] =
     (Reply 400 (ErrorBody ''Invalid note ID''),
      [\<lparr>note_id = 42, note_user = 2, note_title = lit ''a'', note_content = lit ''b'',
        note_tags = [], note_isFavorite = Some False, note_createdAt = 3, note_updatedAt = 3\<rparr>]) \<and>
   castObjectId (lit ''00000000000000000000002a'') = Some 42 \<and>
   status (getNote castObjectId 2 (lit ''00000000000000000000002a'')
     [\<lparr>note_id = 42, note_user = 2, note_title = lit ''a'', note_content = lit ''b'',
       note_tags = [], note_isFavorite = Some False, note_createdAt = 3, note_updatedAt = 3\<rparr>]) = 200 \<and>
   status (getNote castObjectId 1 (lit ''00000000000000000000002a'')
     [\<lparr>note_id = 42, note_user = 2, note_title = lit ''a'', note_content = lit ''b'',
       note_tags = [], note_isFavorite = Some False, note_createdAt = 3, note_updatedAt = 3\<rparr>]) = 404"
proof -
  let ?st = "[\<lparr>note_id = 42, note_user = 2, note_title = lit ''a'', note_content = lit ''b'',
       note_tags = [], note_isFavorite = Some False, note_createdAt = 3, note_updatedAt = 3\<rparr>]"
  let ?b = "\<lparr>url = JUndefined, title = JUndefined, content = JUndefined,
      description = JUndefined, tags = JUndefined, isFavorite = JUndefined\<rparr>"
  have n: "castObjectId (lit ''not-an-id'') = None"
    by (simp add: castObjectId_def lit_def)
  have c: "castObjectId (lit ''00000000000000000000002a'') = Some 42"
    by (simp add: castObjectId_def lit_def hexDigit_def)
  have 1: "deleteNote castObjectId 1 (lit ''not-an-id'') ?st =
      (Reply 400 (ErrorBody ''Invalid note ID''), ?st)"
    using identifier_outcomes [of castObjectId "lit ''not-an-id''" 1 ?st ?b 9 "[]"] n by blast
  have 2: "status (getNote castObjectId 2 (lit ''00000000000000000000002a'') ?st) =
      (if \<exists>d\<in>set ?st. note_id d = 42 \<and> note_user d = 2 then 200 else 404)"
    using identifier_outcomes [of castObjectId "lit ''00000000000000000000002a''" 2 ?st ?b 9 "[]"] c
    by blast
  have 3: "status (getNote castObjectId 1 (lit ''00000000000000000000002a'') ?st) =
      (if \<exists>d\<in>set ?st. note_id d = 42 \<and> note_user d = 1 then 200 else 404)"
    using identifier_outcomes [of castObjectId "lit ''00000000000000000000002a''" 1 ?st ?b 9 "[]"] c
    by blast
  have "status (getNote castObjectId 2 (lit ''00000000000000000000002a'') ?st) = 200"
    unfolding 2 by simp
  moreover have "status (getNote castObjectId 1 (lit ''00000000000000000000002a'') ?st) = 404"
    unfolding 3 by simp
  ultimately show ?thesis using n c 1 by (intro conjI)
qed

theorem malformed_id_counterexample:
  "castObjectId (lit ''not-an-id'') = None \<and>
   getNote castObjectId 1 (lit ''not-an-id'') [] = Reply 400 (ErrorBody ''Invalid note ID'') \<and>
   getBookmark castObjectId 1 (lit ''not-an-id'') [] =
     Reply 400 (ErrorBody ''Invalid bookmark ID'')"
  by (simp add: castObjectId_def lit_def getNote_def getBookmark_def findOne_def)

subsection \<open>The metadata fetcher\<close>

lemma collapse_Nil_iff: "collapseWhiteSpace s = [] \<longleftrightarrow> s = []"
  by (cases s) auto

lemma hd_collapse: "s \<noteq> [] \<Longrightarrow> \<not> isWhiteSpace (hd s) \<Longrightarrow> hd (collapseWhiteSpace s) = hd s"
  by (cases s) auto

lemma dropWhile_keeps_last:
  assumes "cs \<noteq> []" "\<not> P (last cs)"
  shows "dropWhile P cs \<noteq> [] \<and> last (dropWhile P cs) = last cs"
proof -
  have "last cs \<in> set cs" using assms(1) by simp
  then have n: "dropWhile P cs \<noteq> []" using assms(2) by (auto simp: dropWhile_eq_Nil_conv)
  then have "last cs = last (dropWhile P cs)"
    by (metis last_appendR takeWhile_dropWhile_id)
  then show ?thesis using n by simp
qed

lemma singleSpaced_Cons:
  "t \<noteq> [] \<Longrightarrow> singleSpaced (c # t) \<longleftrightarrow>
     (if isWhiteSpace c then c = 32 \<and> \<not> isWhiteSpace (hd t) else True) \<and> singleSpaced t"
  by (cases t) auto

lemma singleSpaced_collapse:
  "s \<noteq> [] \<Longrightarrow> \<not> isWhiteSpace (last s) \<Longrightarrow> singleSpaced (collapseWhiteSpace s)"
proof (induction s rule: collapseWhiteSpace.induct)
  case 1
  then show ?case by simp
next
  case (2 c cs)
  show ?case
  proof (cases "isWhiteSpace c")
    case True
    then have cs: "cs \<noteq> []" using 2(4) by auto
    then have l: "\<not> isWhiteSpace (last cs)" using 2(4) by simp
    let ?r = "dropWhile isWhiteSpace cs"
    have r: "?r \<noteq> []" "last ?r = last cs"
      using dropWhile_keeps_last [where P = isWhiteSpace, OF cs l] by auto
    have h: "\<not> isWhiteSpace (hd ?r)" by (metis hd_dropWhile r(1))
    have "singleSpaced (collapseWhiteSpace ?r)"
      using 2(1) [OF True r(1)] l r(2) by simp
    moreover have "collapseWhiteSpace ?r \<noteq> []" using r(1) by (simp add: collapse_Nil_iff)
    moreover have "hd (collapseWhiteSpace ?r) = hd ?r" using r(1) h by (rule hd_collapse)
    ultimately have "singleSpaced (32 # collapseWhiteSpace ?r)"
      using h by (simp add: singleSpaced_Cons isWhiteSpace_def)
    then show ?thesis using True by simp
  next
    case False
    show ?thesis
    proof (cases "cs = []")
      case True
      then show ?thesis using False by simp
    next
      case ne: False
      then have "\<not> isWhiteSpace (last cs)" using 2(4) by simp
      then have "singleSpaced (collapseWhiteSpace cs)" using 2(2) [OF False ne] by simp
      moreover have "collapseWhiteSpace cs \<noteq> []" using ne by (simp add: collapse_Nil_iff)
      ultimately show ?thesis using False by (simp add: singleSpaced_Cons)
    qed
  qed
qed

lemma singleSpaced_last: "singleSpaced t \<Longrightarrow> t \<noteq> [] \<Longrightarrow> \<not> isWhiteSpace (last t)"
  by (induction t rule: singleSpaced.induct) auto

lemma cleaned_title:
  assumes "trim c \<noteq> []"
  shows "collapseWhiteSpace (trim c) \<noteq> [] \<and>
         trim (collapseWhiteSpace (trim c)) = collapseWhiteSpace (trim c) \<and>
         singleSpaced (collapseWhiteSpace (trim c))"
proof -
  let ?t = "collapseWhiteSpace (trim c)"
  have e: "\<not> isWhiteSpace (hd (trim c))" "\<not> isWhiteSpace (last (trim c))"
    using trim_ends [OF assms] by auto
  have n: "?t \<noteq> []" using assms by (simp add: collapse_Nil_iff)
  have s: "singleSpaced ?t" using assms e(2) by (rule singleSpaced_collapse)
  have "hd ?t = hd (trim c)" using assms e(1) by (rule hd_collapse)
  then have "\<not> isWhiteSpace (hd ?t)" using e(1) by simp
  moreover have "\<not> isWhiteSpace (last ?t)" using s n by (rule singleSpaced_last)
  ultimately have "trim ?t = ?t" using n by (intro trim_fixed)
  then show ?thesis using n s by simp
qed

lemma found_title:
  "orElse (orElse (orElse (ogTitle p) (twitterTitle p)) (Some (titleText p))) (Some (h1Text p)) =
     (case firstNonEmpty (candidates p) of None \<Rightarrow> Some [] | Some c \<Rightarrow> Some c)"
  by (cases p) (auto simp: orElse_def candidates_def split: option.splits)

lemma firstNonEmpty_Some: "firstNonEmpty cs = Some c \<Longrightarrow> c \<noteq> []"
  by (induction cs) (auto split: if_splits)

lemma trim_Nil: "trim [] = []"
  by (simp add: trim_def)

lemma fetchMetadata_eq:
  "fetchMetadata web u =
     (case web u of
        None \<Rightarrow> None
      | Some p \<Rightarrow>
          (case firstNonEmpty (candidates p) of
             None \<Rightarrow> None
           | Some c \<Rightarrow> if trim c = [] then None else Some (collapseWhiteSpace (trim c))))"
proof (cases "web u")
  case None
  then show ?thesis by (simp add: fetchMetadata_def)
next
  case (Some p)
  show ?thesis
  proof (cases "firstNonEmpty (candidates p)")
    case None
    then show ?thesis
      using Some by (simp add: fetchMetadata_def found_title) (simp add: orElse_def)
  next
    case c: (Some c)
    then have "c \<noteq> []" by (rule firstNonEmpty_Some)
    then show ?thesis
      using Some c
      by (simp add: fetchMetadata_def found_title) (simp add: orElse_def collapse_Nil_iff)
  qed
qed

lemma fetchMetadata_Some:
  assumes "fetchMetadata web u = Some t"
  shows "t \<noteq> [] \<and> trim t = t \<and> singleSpaced t"
proof -
  obtain c where "trim c \<noteq> []" "t = collapseWhiteSpace (trim c)"
    using assms unfolding fetchMetadata_eq by (auto split: option.splits if_splits)
  then show ?thesis using cleaned_title [of c] by simp
qed

text \<open>
  Claim C4, as the code has it. The fetcher takes the first candidate that is not empty,
  in the order Open Graph title, Twitter title, \<^verbatim>\<open>title\<close> element, first \<^verbatim>\<open>h1\<close>; it
  trims it and collapses its runs of white space to single spaces, and returns the
  result, unless that is empty. It returns \<^verbatim>\<open>null\<close> when the request or the parsing
  fails, when every candidate is empty, and also when the first candidate that is not
  empty consists of white space only: the candidates after it are not looked at. It has
  no other outcome, so no error reaches the caller. A title it returns is not empty, is
  trimmed, and has no white space but single spaces.
\<close>

theorem fetched_title:
  "fetchMetadata web u =
     (case web u of
        None \<Rightarrow> None
      | Some p \<Rightarrow>
          (case firstNonEmpty (candidates p) of
             None \<Rightarrow> None
           | Some c \<Rightarrow> if trim c = [] then None else Some (collapseWhiteSpace (trim c)))) \<and>
   (\<forall>t. fetchMetadata web u = Some t \<longrightarrow> t \<noteq> [] \<and> trim t = t \<and> singleSpaced t)"
  using fetchMetadata_eq [of web u] fetchMetadata_Some [of web u] by blast

theorem fetched_title_witness:
  "fetchMetadata
     (\<lambda>u. if u = lit ''http://a.example''
          then Some (Page None (Some (lit '' Hello   big  world '')) (lit ''T'') [])
          else None)
     (lit ''http://a.example'') = Some (lit ''Hello big world'') \<and>
   lit ''Hello big world'' \<noteq> [] \<and>
   trim (lit ''Hello big world'') = lit ''Hello big world'' \<and>
   singleSpaced (lit ''Hello big world'') \<and>
   fetchMetadata
     (\<lambda>u. if u = lit ''http://a.example''
          then Some (Page None (Some (lit '' Hello   big  world '')) (lit ''T'') [])
          else None)
     (lit ''http://b.example'') = None"
proof -
  let ?web = "\<lambda>u. if u = lit ''http://a.example''
          then Some (Page None (Some (lit '' Hello   big  world '')) (lit ''T'') [])
          else None"
  let ?p = "Page None (Some (lit '' Hello   big  world '')) (lit ''T'') []"
  have w: "?web (lit ''http://a.example'') = Some ?p" by simp
  have v: "?web (lit ''http://b.example'') = None" by (simp add: lit_def)
  have f: "firstNonEmpty (candidates ?p) = Some (lit '' Hello   big  world '')"
    by (simp add: candidates_def lit_def)
  have t: "trim (lit '' Hello   big  world '') = lit ''Hello   big  world''"
    by (simp add: trim_def lit_def isWhiteSpace_def)
  have n: "lit ''Hello   big  world'' \<noteq> []" by (simp add: lit_def)
  have c: "collapseWhiteSpace (lit ''Hello   big  world'') = lit ''Hello big world''"
    by (simp add: lit_def isWhiteSpace_def)
  have 1: "fetchMetadata ?web (lit ''http://a.example'') = Some (lit ''Hello big world'')"
    using fetched_title [of ?web "lit ''http://a.example''"]
    unfolding w f t c option.case using n by simp
  have 2: "fetchMetadata ?web (lit ''http://b.example'') = None"
    using fetched_title [of ?web "lit ''http://b.example''"]
    unfolding v option.case by simp
  have "lit ''Hello big world'' \<noteq> [] \<and> trim (lit ''Hello big world'') = lit ''Hello big world'' \<and>
      singleSpaced (lit ''Hello big world'')"
    using fetched_title [of ?web "lit ''http://a.example''"] 1 by blast
  then show ?thesis using 1 2 by blast
qed

theorem blank_candidate_counterexample:
  "firstNonEmpty (candidates (Page (Some (lit '' '')) None (lit ''Real title'') [])) =
     Some (lit '' '') \<and>
   fetchMetadata (\<lambda>u. Some (Page (Some (lit '' '')) None (lit ''Real title'') []))
     (lit ''http://a.example'') = None"
  by (simp add: candidates_def fetchMetadata_def orElse_def lit_def trim_def isWhiteSpace_def)

subsection \<open>Creating a bookmark\<close>

lemma bookmarkTitle_fetches:
  "snd (bookmarkTitle web u t) = (if noTitle t = Some True then [u] else [])"
  by (simp add: bookmarkTitle_def split: option.splits bool.splits)

lemma bookmarkTitle_fallback:
  "noTitle t = Some True \<Longrightarrow> fetchMetadata web u = None \<Longrightarrow>
   bookmarkTitle web u t = (Some u, [u])"
  by (simp add: bookmarkTitle_def orElse_def the_default_def)

lemma createBookmark_fetches:
  "snd (snd (createBookmark web now newId user b st)) =
     (if \<not> blankOrNotString (url b) \<and> urlPattern (trim (theString (url b))) \<and>
         createTags (tags b) \<noteq> None
      then snd (bookmarkTitle web (theString (url b)) (title b)) else [])"
  by (simp add: createBookmark_def split: option.splits prod.splits sum.splits
      store_error.splits)

lemma Bookmark_save_Inr:
  "Bookmark_save now newId user u t d tgs fav st = Inr (doc, st') \<Longrightarrow>
   st' = st @ [doc] \<and> bm_url doc = trim u \<and> bm_title doc = trim t \<and> bm_user doc = user"
  by (auto simp: Bookmark_save_def Let_def split: if_splits)

lemma createBookmark_created:
  assumes "createBookmark web now newId user b st = (Reply 201 (DocBody doc), st', fs)"
  shows "\<exists>t d tgs. fst (bookmarkTitle web (theString (url b)) (title b)) = Some t \<and>
           Bookmark_save now newId user (trim (theString (url b))) (trim t) d tgs
             (orFalse (isFavorite b)) st = Inr (doc, st')"
  using assms
  by (auto simp: createBookmark_def split: if_splits option.splits prod.splits sum.splits
      store_error.splits)

text \<open>
  Claim C5, as the code has it. On creating a bookmark the fetcher is called, once and
  with the URL as it was sent, exactly when the URL is valid, the tags can be
  normalised, and the title is absent (or another falsy value) or a string that is blank
  once trimmed; it is never called when the title is a string that is not blank. When
  it is called and returns \<^verbatim>\<open>null\<close>, and the bookmark is stored, the stored title is
  the URL trimmed of surrounding white space, which is also the stored URL; it is the
  URL as it was sent only when that has no white space around it.
\<close>

theorem bookmark_title_fallback:
  "snd (snd (createBookmark web now newId user b st)) =
     (if \<not> blankOrNotString (url b) \<and> urlPattern (trim (theString (url b))) \<and>
         createTags (tags b) \<noteq> None \<and> noTitle (title b) = Some True
      then [theString (url b)] else []) \<and>
   (\<forall>s. title b = JStr s \<and> trim s \<noteq> [] \<longrightarrow>
      snd (snd (createBookmark web now newId user b st)) = []) \<and>
   (\<forall>doc st' fs.
      createBookmark web now newId user b st = (Reply 201 (DocBody doc), st', fs) \<and>
      noTitle (title b) = Some True \<and> fetchMetadata web (theString (url b)) = None \<longrightarrow>
      st' = st @ [doc] \<and> bm_title doc = trim (theString (url b)) \<and> bm_url doc = bm_title doc)"
proof -
  have 1: "snd (snd (createBookmark web now newId user b st)) =
     (if \<not> blankOrNotString (url b) \<and> urlPattern (trim (theString (url b))) \<and>
         createTags (tags b) \<noteq> None \<and> noTitle (title b) = Some True
      then [theString (url b)] else [])"
    by (simp add: createBookmark_fetches bookmarkTitle_fetches)
  have 2: "snd (snd (createBookmark web now newId user b st)) = []"
    if "title b = JStr s \<and> trim s \<noteq> []" for s
  proof -
    have "noTitle (title b) = Some False" using that by (auto simp: trim_Nil)
    then show ?thesis by (simp add: 1)
  qed
  have 3: "st' = st @ [doc] \<and> bm_title doc = trim (theString (url b)) \<and>
      bm_url doc = bm_title doc"
    if a: "createBookmark web now newId user b st = (Reply 201 (DocBody doc), st', fs) \<and>
      noTitle (title b) = Some True \<and> fetchMetadata web (theString (url b)) = None"
    for doc st' fs
  proof -
    let ?u = "theString (url b)"
    have "bookmarkTitle web ?u (title b) = (Some ?u, [?u])"
      using a by (simp add: bookmarkTitle_fallback)
    then obtain d tgs where
      "Bookmark_save now newId user (trim ?u) (trim ?u) d tgs (orFalse (isFavorite b)) st =
         Inr (doc, st')"
      using createBookmark_created [of web now newId user b st doc st' fs] a by auto
    then have "st' = st @ [doc] \<and> bm_url doc = trim (trim ?u) \<and> bm_title doc = trim (trim ?u)"
      using Bookmark_save_Inr by blast
    then show ?thesis by (simp add: trim_idem)
  qed
  show ?thesis using 1 2 3 by blast
qed

theorem bookmark_title_fallback_witness:
  "noTitle JUndefined = Some True \<and>
   fetchMetadata (\<lambda>u. None) (lit ''http://x.com'') = None \<and>
   createBookmark (\<lambda>u. None) 5 9 1
     \<lparr>url = JStr (lit ''http://x.com''), title = JUndefined, content = JUndefined,
      description = JUndefined, tags = JUndefined, isFavorite = JUndefined\<rparr> [] =
     (Reply 201 (DocBody
        \<lparr>bm_id = 9, bm_user = 1, bm_url = lit ''http://x.com'', bm_title = lit ''http://x.com'',
         bm_description = [], bm_tags = [], bm_isFavorite = Some False, bm_createdAt = 5, bm_updatedAt = 5\<rparr>),
      [\<lparr>bm_id = 9, bm_user = 1, bm_url = lit ''http://x.com'', bm_title = lit ''http://x.com'',
        bm_description = [], bm_tags = [], bm_isFavorite = Some False, bm_createdAt = 5, bm_updatedAt = 5\<rparr>],
      [lit ''http://x.com'']) \<and>
   bm_title \<lparr>bm_id = 9, bm_user = 1, bm_url = lit ''http://x.com'', bm_title = lit ''http://x.com'',
      bm_description = [], bm_tags = [], bm_isFavorite = Some False, bm_createdAt = 5, bm_updatedAt = 5\<rparr> =
     trim (lit ''http://x.com'')"
proof -
  let ?b = "\<lparr>url = JStr (lit ''http://x.com''), title = JUndefined, content = JUndefined,
      description = JUndefined, tags = JUndefined, isFavorite = JUndefined\<rparr>"
  let ?d = "\<lparr>bm_id = 9, bm_user = 1, bm_url = lit ''http://x.com'', bm_title = lit ''http://x.com'',
      bm_description = [], bm_tags = [], bm_isFavorite = Some False, bm_createdAt = 5, bm_updatedAt = 5\<rparr>"
  have n: "noTitle (title ?b) = Some True" by simp
  have f: "fetchMetadata (\<lambda>u. None) (theString (url ?b)) = None"
    by (simp add: fetchMetadata_def)
  have t: "trim (lit ''http://x.com'') = lit ''http://x.com''"
    by (simp add: trim_def lit_def isWhiteSpace_def)
  have p: "urlPattern (lit ''http://x.com'')"
    by (simp add: urlPattern_def lit_def isLineTerminator_def)
  have l: "lit ''http://x.com'' \<noteq> []" "length (lit ''http://x.com'') = 12"
    by (simp_all add: lit_def)
  have e: "createBookmark (\<lambda>u. None) 5 9 1 ?b [] = (Reply 201 (DocBody ?d), [?d], [lit ''http://x.com''])"
    using t p l
    by (simp add: createBookmark_def createTags_def new_Set_def bookmarkTitle_def
        fetchMetadata_def orElse_def the_default_def Bookmark_save_def urlErrors_def
        titleErrors_def descriptionErrors_def favoriteErrors_def storedFavorite_def orFalse_def
        trim_Nil Let_def)
  have "bm_title ?d = trim (theString (url ?b))"
    using bookmark_title_fallback [of "\<lambda>u. None" 5 9 1 ?b "[]"] e n f by blast
  then show ?thesis using n f e by simp
qed

theorem raw_url_title_counterexample:
  "createBookmark (\<lambda>u. None) 5 9 1
     \<lparr>url = JStr (lit '' http://x.com''), title = JUndefined, content = JUndefined,
      description = JUndefined, tags = JUndefined, isFavorite = JUndefined\<rparr> [] =
     (Reply 201 (DocBody
        \<lparr>bm_id = 9, bm_user = 1, bm_url = lit ''http://x.com'', bm_title = lit ''http://x.com'',
         bm_description = [], bm_tags = [], bm_isFavorite = Some False, bm_createdAt = 5, bm_updatedAt = 5\<rparr>),
      [\<lparr>bm_id = 9, bm_user = 1, bm_url = lit ''http://x.com'', bm_title = lit ''http://x.com'',
        bm_description = [], bm_tags = [], bm_isFavorite = Some False, bm_createdAt = 5, bm_updatedAt = 5\<rparr>],
      [lit '' http://x.com'']) \<and>
   lit ''http://x.com'' \<noteq> lit '' http://x.com''"
proof -
  have t: "trim (lit '' http://x.com'') = lit ''http://x.com''"
    "trim (lit ''http://x.com'') = lit ''http://x.com''"
    by (simp_all add: trim_def lit_def isWhiteSpace_def)
  have p: "urlPattern (lit ''http://x.com'')"
    by (simp add: urlPattern_def lit_def isLineTerminator_def)
  have l: "lit ''http://x.com'' \<noteq> []" "length (lit ''http://x.com'') = 12"
    "lit '' http://x.com'' \<noteq> []" "lit ''http://x.com'' \<noteq> lit '' http://x.com''"
    by (simp_all add: lit_def)
  show ?thesis
    using t p l
    by (simp add: createBookmark_def createTags_def new_Set_def bookmarkTitle_def
        fetchMetadata_def orElse_def the_default_def Bookmark_save_def urlErrors_def
        titleErrors_def descriptionErrors_def favoriteErrors_def storedFavorite_def orFalse_def
        trim_Nil Let_def)
qed

subsection \<open>Updating\<close>

lemma length_updateFirst: "length (updateFirst P f st) = length st"
  by (induction st) auto

lemma nth_updateFirst:
  "k < length st \<Longrightarrow> updateFirst P f st ! k = st ! k \<or> updateFirst P f st ! k = f (st ! k)"
proof (induction st arbitrary: k)
  case Nil
  then show ?case by simp
next
  case (Cons d ds)
  then show ?case by (cases k) auto
qed

lemma updateFirst_found: "find P st = Some d \<Longrightarrow> f d \<in> set (updateFirst P f st)"
  by (induction st) (auto split: if_splits)

lemma find_holds: "find P st = Some d \<Longrightarrow> P d"
  by (induction st) (auto split: if_splits)

lemma updateTags_trimmed: "updateTags v = Some out \<Longrightarrow> map trim out = out"
proof -
  assume "updateTags v = Some out"
  then obtain entries where e: "tagsArray v = Some entries" and o: "out = firstSeen entries"
    by (auto simp: updateTags_def new_Set_firstSeen)
  have "\<forall>t\<in>set out. trim t = t"
    using tagsArray_entries [OF e] by (simp add: o set_firstSeen)
  then show ?thesis by (intro map_idI) simp
qed

lemma Note_change_Inr:
  assumes "Note_change now u = Inr f"
  obtains fav where "castFavorite (set_isFavorite u) = Some fav"
    and "f = (\<lambda>d. d\<lparr>note_title := assign (map_option trim (set_title u)) (note_title d),
                     note_content := assign (map_option trim (set_content u)) (note_content d),
                     note_tags := assign (map_option (map trim) (set_tags u)) (note_tags d),
                     note_isFavorite := assign fav (note_isFavorite d),
                     note_updatedAt := now\<rparr>)"
  using assms by (auto simp: Note_change_def Let_def split: option.splits if_splits)

lemma Bookmark_change_Inr:
  assumes "Bookmark_change now u = Inr f"
  obtains fav where "castFavorite (set_isFavorite u) = Some fav"
    and "f = (\<lambda>d. d\<lparr>bm_url := assign (map_option trim (set_url u)) (bm_url d),
                     bm_title := assign (map_option trim (set_title u)) (bm_title d),
                     bm_description := assign (map_option trim (set_description u))
                                         (bm_description d),
                     bm_tags := assign (map_option (map trim) (set_tags u)) (bm_tags d),
                     bm_isFavorite := assign fav (bm_isFavorite d),
                     bm_updatedAt := now\<rparr>)"
  using assms by (auto simp: Bookmark_change_def Let_def split: option.splits if_splits)

lemma updateNote_cases:
  assumes "updateNote now cast user idParam b st = (r, st')"
  obtains "st' = st" "status r \<noteq> 200"
  | u f i d where "noteUpdateData b = Inr u" "Note_change now u = Inr f" "cast idParam = Some i"
      "find (byIdAndUser Note i user) st = Some d" "r = Reply 200 (DocBody (f d))"
      "st' = updateFirst (byIdAndUser Note i user) f st"
proof (cases "noteUpdateData b")
  case (Inl rr)
  then have "st' = st" "r = rr" using assms by (simp_all add: updateNote_def)
  then show ?thesis using that(1) noteUpdateData_status [OF Inl] by auto
next
  case (Inr u)
  show ?thesis
  proof (cases "cast idParam")
    case None
    then show ?thesis using that(1) assms Inr
      by (auto simp: updateNote_def findOneAndUpdate_def)
  next
    case (Some i)
    show ?thesis
    proof (cases "Note_change now u")
      case (Inl e)
      then show ?thesis using that(1) assms Inr Some
        by (cases e) (auto simp: updateNote_def findOneAndUpdate_def)
    next
      case f: (Inr f)
      show ?thesis
      proof (cases "find (byIdAndUser Note i user) st")
        case None
        then have "\<forall>d\<in>set st. \<not> byIdAndUser Note i user d" by (simp add: find_None_iff)
        then have "updateFirst (byIdAndUser Note i user) f st = st"
          by (rule updateFirst_absent)
        then show ?thesis using that(1) assms Inr Some f None
          by (auto simp: updateNote_def findOneAndUpdate_def)
      next
        case d: (Some d)
        then show ?thesis using that(2) [OF Inr f Some d] assms Inr Some f
          by (auto simp: updateNote_def findOneAndUpdate_def)
      qed
    qed
  qed
qed

lemma updateBookmark_cases:
  assumes "updateBookmark now cast user idParam b st = (r, st')"
  obtains "st' = st" "status r \<noteq> 200"
  | u f i d where "bookmarkUpdateData b = Inr u" "Bookmark_change now u = Inr f"
      "cast idParam = Some i" "find (byIdAndUser Bookmark i user) st = Some d"
      "r = Reply 200 (DocBody (f d))" "st' = updateFirst (byIdAndUser Bookmark i user) f st"
proof (cases "bookmarkUpdateData b")
  case (Inl rr)
  then have "st' = st" "r = rr" using assms by (simp_all add: updateBookmark_def)
  then show ?thesis using that(1) bookmarkUpdateData_status [OF Inl] by auto
next
  case (Inr u)
  show ?thesis
  proof (cases "cast idParam")
    case None
    then show ?thesis using that(1) assms Inr
      by (auto simp: updateBookmark_def findOneAndUpdate_def)
  next
    case (Some i)
    show ?thesis
    proof (cases "Bookmark_change now u")
      case (Inl e)
      then show ?thesis using that(1) assms Inr Some
        by (cases e) (auto simp: updateBookmark_def findOneAndUpdate_def)
    next
      case f: (Inr f)
      show ?thesis
      proof (cases "find (byIdAndUser Bookmark i user) st")
        case None
        then have "\<forall>d\<in>set st. \<not> byIdAndUser Bookmark i user d" by (simp add: find_None_iff)
        then have "updateFirst (byIdAndUser Bookmark i user) f st = st"
          by (rule updateFirst_absent)
        then show ?thesis using that(1) assms Inr Some f None
          by (auto simp: updateBookmark_def findOneAndUpdate_def)
      next
        case d: (Some d)
        then show ?thesis using that(2) [OF Inr f Some d] assms Inr Some f
          by (auto simp: updateBookmark_def findOneAndUpdate_def)
      qed
    qed
  qed
qed

lemma noteUpdateData_Inr:
  assumes "noteUpdateData b = Inr u"
  shows "set_title u = (if present (title b) then Some (trim (theString (title b))) else None)"
    and "set_content u = (if present (content b) then Some (trim (theString (content b))) else None)"
    and "set_isFavorite u = (if present (isFavorite b) then Some (isFavorite b) else None)"
    and "(if present (tags b) then map_option Some (updateTags (tags b)) else Some None) =
           Some (set_tags u)"
  using assms by (auto simp: noteUpdateData_def split: if_splits option.splits)

lemma bookmarkUpdateData_Inr:
  assumes "bookmarkUpdateData b = Inr u"
  shows "set_url u = (if present (url b) then Some (trim (theString (url b))) else None)"
    and "setTrimOrEmpty (title b) = Some (set_title u)"
    and "setTrimOrEmpty (description b) = Some (set_description u)"
    and "set_isFavorite u = (if present (isFavorite b) then Some (isFavorite b) else None)"
    and "(if present (tags b) then map_option Some (updateTags (tags b)) else Some None) =
           Some (set_tags u)"
  using assms by (auto simp: bookmarkUpdateData_def split: if_splits option.splits prod.splits)

lemma castFavorite_absent: "castFavorite None = Some fav \<Longrightarrow> fav = None"
  by (simp add: castFavorite_def)

lemma castFavorite_present: "castFavorite (Some v) = Some fav \<Longrightarrow> \<exists>x. fav = Some x \<and> castBoolean v = Some x"
  by (auto simp: castFavorite_def)

lemma note_frame:
  assumes u: "noteUpdateData b = Inr u" and f: "Note_change now u = Inr f"
  shows "note_id (f d) = note_id d \<and> note_user (f d) = note_user d \<and>
         note_createdAt (f d) = note_createdAt d \<and>
         (\<not> present (title b) \<longrightarrow> note_title (f d) = note_title d) \<and>
         (\<not> present (content b) \<longrightarrow> note_content (f d) = note_content d) \<and>
         (\<not> present (tags b) \<longrightarrow> note_tags (f d) = note_tags d) \<and>
         (\<not> present (isFavorite b) \<longrightarrow> note_isFavorite (f d) = note_isFavorite d)"
proof -
  obtain fav where c: "castFavorite (set_isFavorite u) = Some fav"
    and e: "f = (\<lambda>d. d\<lparr>note_title := assign (map_option trim (set_title u)) (note_title d),
                     note_content := assign (map_option trim (set_content u)) (note_content d),
                     note_tags := assign (map_option (map trim) (set_tags u)) (note_tags d),
                     note_isFavorite := assign fav (note_isFavorite d),
                     note_updatedAt := now\<rparr>)"
    using f by (rule Note_change_Inr)
  have "\<not> present (isFavorite b) \<Longrightarrow> fav = None"
    using c noteUpdateData_Inr(3) [OF u] by (simp add: castFavorite_absent)
  moreover have "\<not> present (tags b) \<Longrightarrow> set_tags u = None"
    using noteUpdateData_Inr(4) [OF u] by simp
  ultimately show ?thesis
    using noteUpdateData_Inr(1,2) [OF u] by (auto simp: e assign_def)
qed

lemma note_applied:
  assumes u: "noteUpdateData b = Inr u" and f: "Note_change now u = Inr f"
  shows "(present (title b) \<longrightarrow> note_title (f d) = trim (theString (title b))) \<and>
         (present (content b) \<longrightarrow> note_content (f d) = trim (theString (content b))) \<and>
         (present (tags b) \<longrightarrow> updateTags (tags b) = Some (note_tags (f d))) \<and>
         (present (isFavorite b) \<longrightarrow> castBoolean (isFavorite b) = Some (note_isFavorite (f d))) \<and>
         note_updatedAt (f d) = now"
proof -
  obtain fav where c: "castFavorite (set_isFavorite u) = Some fav"
    and e: "f = (\<lambda>d. d\<lparr>note_title := assign (map_option trim (set_title u)) (note_title d),
                     note_content := assign (map_option trim (set_content u)) (note_content d),
                     note_tags := assign (map_option (map trim) (set_tags u)) (note_tags d),
                     note_isFavorite := assign fav (note_isFavorite d),
                     note_updatedAt := now\<rparr>)"
    using f by (rule Note_change_Inr)
  have t: "updateTags (tags b) = Some (note_tags (f d))" if p: "present (tags b)"
  proof -
    have "map_option Some (updateTags (tags b)) = Some (set_tags u)"
      using noteUpdateData_Inr(4) [OF u] p by simp
    then obtain out where o: "updateTags (tags b) = Some out" "set_tags u = Some out"
      by (cases "updateTags (tags b)") auto
    then show ?thesis using updateTags_trimmed [OF o(1)] by (simp add: e assign_def)
  qed
  have v: "castBoolean (isFavorite b) = Some (note_isFavorite (f d))" if p: "present (isFavorite b)"
  proof -
    have "castFavorite (Some (isFavorite b)) = Some fav"
      using c noteUpdateData_Inr(3) [OF u] p by simp
    then show ?thesis using castFavorite_present by (fastforce simp: e assign_def)
  qed
  show ?thesis
    using t v noteUpdateData_Inr(1,2) [OF u] by (auto simp: e assign_def trim_idem)
qed

lemma bookmark_frame:
  assumes u: "bookmarkUpdateData b = Inr u" and f: "Bookmark_change now u = Inr f"
  shows "bm_id (f d) = bm_id d \<and> bm_user (f d) = bm_user d \<and>
         bm_createdAt (f d) = bm_createdAt d \<and>
         (\<not> present (url b) \<longrightarrow> bm_url (f d) = bm_url d) \<and>
         (\<not> present (title b) \<longrightarrow> bm_title (f d) = bm_title d) \<and>
         (\<not> present (description b) \<longrightarrow> bm_description (f d) = bm_description d) \<and>
         (\<not> present (tags b) \<longrightarrow> bm_tags (f d) = bm_tags d) \<and>
         (\<not> present (isFavorite b) \<longrightarrow> bm_isFavorite (f d) = bm_isFavorite d)"
proof -
  obtain fav where c: "castFavorite (set_isFavorite u) = Some fav"
    and e: "f = (\<lambda>d. d\<lparr>bm_url := assign (map_option trim (set_url u)) (bm_url d),
                     bm_title := assign (map_option trim (set_title u)) (bm_title d),
                     bm_description := assign (map_option trim (set_description u))
                                         (bm_description d),
                     bm_tags := assign (map_option (map trim) (set_tags u)) (bm_tags d),
                     bm_isFavorite := assign fav (bm_isFavorite d),
                     bm_updatedAt := now\<rparr>)"
    using f by (rule Bookmark_change_Inr)
  have "\<not> present (isFavorite b) \<Longrightarrow> fav = None"
    using c bookmarkUpdateData_Inr(4) [OF u] by (simp add: castFavorite_absent)
  moreover have "\<not> present (tags b) \<Longrightarrow> set_tags u = None"
    using bookmarkUpdateData_Inr(5) [OF u] by simp
  moreover have "\<not> present (title b) \<Longrightarrow> set_title u = None"
    using bookmarkUpdateData_Inr(2) [OF u] by (simp add: setTrimOrEmpty_def)
  moreover have "\<not> present (description b) \<Longrightarrow> set_description u = None"
    using bookmarkUpdateData_Inr(3) [OF u] by (simp add: setTrimOrEmpty_def)
  ultimately show ?thesis
    using bookmarkUpdateData_Inr(1) [OF u] by (auto simp: e assign_def)
qed

lemma trimOrEmpty_trimmed: "trimOrEmpty v = Some s \<Longrightarrow> trim s = s"
  by (cases v) (auto simp: trim_idem trim_Nil split: if_splits)

lemma bookmark_applied:
  assumes u: "bookmarkUpdateData b = Inr u" and f: "Bookmark_change now u = Inr f"
  shows "(present (url b) \<longrightarrow> bm_url (f d) = trim (theString (url b))) \<and>
         (present (title b) \<longrightarrow> trimOrEmpty (title b) = Some (bm_title (f d))) \<and>
         (present (description b) \<longrightarrow> trimOrEmpty (description b) = Some (bm_description (f d))) \<and>
         (present (tags b) \<longrightarrow> updateTags (tags b) = Some (bm_tags (f d))) \<and>
         (present (isFavorite b) \<longrightarrow> castBoolean (isFavorite b) = Some (bm_isFavorite (f d))) \<and>
         bm_updatedAt (f d) = now"
proof -
  obtain fav where c: "castFavorite (set_isFavorite u) = Some fav"
    and e: "f = (\<lambda>d. d\<lparr>bm_url := assign (map_option trim (set_url u)) (bm_url d),
                     bm_title := assign (map_option trim (set_title u)) (bm_title d),
                     bm_description := assign (map_option trim (set_description u))
                                         (bm_description d),
                     bm_tags := assign (map_option (map trim) (set_tags u)) (bm_tags d),
                     bm_isFavorite := assign fav (bm_isFavorite d),
                     bm_updatedAt := now\<rparr>)"
    using f by (rule Bookmark_change_Inr)
  have t: "updateTags (tags b) = Some (bm_tags (f d))" if p: "present (tags b)"
  proof -
    have "map_option Some (updateTags (tags b)) = Some (set_tags u)"
      using bookmarkUpdateData_Inr(5) [OF u] p by simp
    then obtain out where o: "updateTags (tags b) = Some out" "set_tags u = Some out"
      by (cases "updateTags (tags b)") auto
    then show ?thesis using updateTags_trimmed [OF o(1)] by (simp add: e assign_def)
  qed
  have v: "castBoolean (isFavorite b) = Some (bm_isFavorite (f d))" if p: "present (isFavorite b)"
  proof -
    have "castFavorite (Some (isFavorite b)) = Some fav"
      using c bookmarkUpdateData_Inr(4) [OF u] p by simp
    then show ?thesis using castFavorite_present by (fastforce simp: e assign_def)
  qed
  have ti: "trimOrEmpty (title b) = Some (bm_title (f d))" if p: "present (title b)"
  proof -
    have "map_option Some (trimOrEmpty (title b)) = Some (set_title u)"
      using bookmarkUpdateData_Inr(2) [OF u] p by (simp add: setTrimOrEmpty_def)
    then obtain s where s: "trimOrEmpty (title b) = Some s" "set_title u = Some s"
      by (cases "trimOrEmpty (title b)") auto
    then show ?thesis using trimOrEmpty_trimmed [OF s(1)] by (simp add: e assign_def)
  qed
  have de: "trimOrEmpty (description b) = Some (bm_description (f d))" if p: "present (description b)"
  proof -
    have "map_option Some (trimOrEmpty (description b)) = Some (set_description u)"
      using bookmarkUpdateData_Inr(3) [OF u] p by (simp add: setTrimOrEmpty_def)
    then obtain s where s: "trimOrEmpty (description b) = Some s" "set_description u = Some s"
      by (cases "trimOrEmpty (description b)") auto
    then show ?thesis using trimOrEmpty_trimmed [OF s(1)] by (simp add: e assign_def)
  qed
  show ?thesis
    using t v ti de bookmarkUpdateData_Inr(1) [OF u] by (auto simp: e assign_def trim_idem)
qed

lemma updateNote_invalid:
  "present (title b) \<and> blankOrNotString (title b) \<Longrightarrow>
   updateNote now cast user idParam b st = (Reply 400 (ErrorBody ''Title is required''), st)"
  "present (content b) \<and> blankOrNotString (content b) \<Longrightarrow>
   status (fst (updateNote now cast user idParam b st)) = 400 \<and>
   snd (updateNote now cast user idParam b st) = st"
  by (simp_all add: updateNote_def noteUpdateData_def)

lemma updateBookmark_invalid:
  "present (url b) \<and> (blankOrNotString (url b) \<or> \<not> urlPattern (trim (theString (url b)))) \<Longrightarrow>
   status (fst (updateBookmark now cast user idParam b st)) = 400 \<and>
   snd (updateBookmark now cast user idParam b st) = st"
  by (auto simp: updateBookmark_def bookmarkUpdateData_def)

lemma note_update_effect:
  assumes n: "updateNote now cast user idParam b st = (r, st')"
  shows "length st' = length st \<and>
    (\<forall>k<length st.
       note_id (st' ! k) = note_id (st ! k) \<and> note_user (st' ! k) = note_user (st ! k) \<and>
       note_createdAt (st' ! k) = note_createdAt (st ! k) \<and>
       (\<not> present (title b) \<longrightarrow> note_title (st' ! k) = note_title (st ! k)) \<and>
       (\<not> present (content b) \<longrightarrow> note_content (st' ! k) = note_content (st ! k)) \<and>
       (\<not> present (tags b) \<longrightarrow> note_tags (st' ! k) = note_tags (st ! k)) \<and>
       (\<not> present (isFavorite b) \<longrightarrow> note_isFavorite (st' ! k) = note_isFavorite (st ! k))) \<and>
    (status r \<noteq> 200 \<longrightarrow> st' = st) \<and>
    (\<forall>doc. r = Reply 200 (DocBody doc) \<longrightarrow>
       doc \<in> set st' \<and> note_user doc = user \<and>
       (present (title b) \<longrightarrow> note_title doc = trim (theString (title b))) \<and>
       (present (content b) \<longrightarrow> note_content doc = trim (theString (content b))) \<and>
       (present (tags b) \<longrightarrow> updateTags (tags b) = Some (note_tags doc)) \<and>
       (present (isFavorite b) \<longrightarrow> castBoolean (isFavorite b) = Some (note_isFavorite doc)) \<and>
       note_updatedAt doc = now)"
  using n
proof (cases rule: updateNote_cases)
  case 1
  then show ?thesis by auto
next
  case (2 u f i d)
  let ?P = "byIdAndUser Note i user"
  have l: "length st' = length st" by (simp add: 2(6) length_updateFirst)
  have k: "st' ! k = st ! k \<or> st' ! k = f (st ! k)" if "k < length st" for k
    using nth_updateFirst [OF that] by (simp add: 2(6))
  have fr: "\<forall>k<length st.
       note_id (st' ! k) = note_id (st ! k) \<and> note_user (st' ! k) = note_user (st ! k) \<and>
       note_createdAt (st' ! k) = note_createdAt (st ! k) \<and>
       (\<not> present (title b) \<longrightarrow> note_title (st' ! k) = note_title (st ! k)) \<and>
       (\<not> present (content b) \<longrightarrow> note_content (st' ! k) = note_content (st ! k)) \<and>
       (\<not> present (tags b) \<longrightarrow> note_tags (st' ! k) = note_tags (st ! k)) \<and>
       (\<not> present (isFavorite b) \<longrightarrow> note_isFavorite (st' ! k) = note_isFavorite (st ! k))"
  proof (intro allI impI)
    fix k assume kl: "k < length st"
    show "note_id (st' ! k) = note_id (st ! k) \<and> note_user (st' ! k) = note_user (st ! k) \<and>
       note_createdAt (st' ! k) = note_createdAt (st ! k) \<and>
       (\<not> present (title b) \<longrightarrow> note_title (st' ! k) = note_title (st ! k)) \<and>
       (\<not> present (content b) \<longrightarrow> note_content (st' ! k) = note_content (st ! k)) \<and>
       (\<not> present (tags b) \<longrightarrow> note_tags (st' ! k) = note_tags (st ! k)) \<and>
       (\<not> present (isFavorite b) \<longrightarrow> note_isFavorite (st' ! k) = note_isFavorite (st ! k))"
      using k [OF kl] note_frame [OF 2(1,2), of "st ! k"] by (elim disjE) simp_all
  qed
  have "?P d" using 2(4) by (rule find_holds)
  then have o: "note_user (f d) = user"
    using note_frame [OF 2(1,2), of d] by (simp add: byIdAndUser_Note)
  have i: "f d \<in> set st'" using updateFirst_found [OF 2(4)] by (simp add: 2(6))
  show ?thesis
    using l fr o i note_applied [OF 2(1,2), of d] by (simp add: 2(5))
qed

lemma bookmark_update_effect:
  assumes n: "updateBookmark now cast user idParam b st = (r, st')"
  shows "length st' = length st \<and>
    (\<forall>k<length st.
       bm_id (st' ! k) = bm_id (st ! k) \<and> bm_user (st' ! k) = bm_user (st ! k) \<and>
       bm_createdAt (st' ! k) = bm_createdAt (st ! k) \<and>
       (\<not> present (url b) \<longrightarrow> bm_url (st' ! k) = bm_url (st ! k)) \<and>
       (\<not> present (title b) \<longrightarrow> bm_title (st' ! k) = bm_title (st ! k)) \<and>
       (\<not> present (description b) \<longrightarrow> bm_description (st' ! k) = bm_description (st ! k)) \<and>
       (\<not> present (tags b) \<longrightarrow> bm_tags (st' ! k) = bm_tags (st ! k)) \<and>
       (\<not> present (isFavorite b) \<longrightarrow> bm_isFavorite (st' ! k) = bm_isFavorite (st ! k))) \<and>
    (status r \<noteq> 200 \<longrightarrow> st' = st) \<and>
    (\<forall>doc. r = Reply 200 (DocBody doc) \<longrightarrow>
       doc \<in> set st' \<and> bm_user doc = user \<and>
       (present (url b) \<longrightarrow> bm_url doc = trim (theString (url b))) \<and>
       (present (title b) \<longrightarrow> trimOrEmpty (title b) = Some (bm_title doc)) \<and>
       (present (description b) \<longrightarrow> trimOrEmpty (description b) = Some (bm_description doc)) \<and>
       (present (tags b) \<longrightarrow> updateTags (tags b) = Some (bm_tags doc)) \<and>
       (present (isFavorite b) \<longrightarrow> castBoolean (isFavorite b) = Some (bm_isFavorite doc)) \<and>
       bm_updatedAt doc = now)"
  using n
proof (cases rule: updateBookmark_cases)
  case 1
  then show ?thesis by auto
next
  case (2 u f i d)
  let ?P = "byIdAndUser Bookmark i user"
  have l: "length st' = length st" by (simp add: 2(6) length_updateFirst)
  have k: "st' ! k = st ! k \<or> st' ! k = f (st ! k)" if "k < length st" for k
    using nth_updateFirst [OF that] by (simp add: 2(6))
  have fr: "\<forall>k<length st.
       bm_id (st' ! k) = bm_id (st ! k) \<and> bm_user (st' ! k) = bm_user (st ! k) \<and>
       bm_createdAt (st' ! k) = bm_createdAt (st ! k) \<and>
       (\<not> present (url b) \<longrightarrow> bm_url (st' ! k) = bm_url (st ! k)) \<and>
       (\<not> present (title b) \<longrightarrow> bm_title (st' ! k) = bm_title (st ! k)) \<and>
       (\<not> present (description b) \<longrightarrow> bm_description (st' ! k) = bm_description (st ! k)) \<and>
       (\<not> present (tags b) \<longrightarrow> bm_tags (st' ! k) = bm_tags (st ! k)) \<and>
       (\<not> present (isFavorite b) \<longrightarrow> bm_isFavorite (st' ! k) = bm_isFavorite (st ! k))"
  proof (intro allI impI)
    fix k assume kl: "k < length st"
    show "bm_id (st' ! k) = bm_id (st ! k) \<and> bm_user (st' ! k) = bm_user (st ! k) \<and>
       bm_createdAt (st' ! k) = bm_createdAt (st ! k) \<and>
       (\<not> present (url b) \<longrightarrow> bm_url (st' ! k) = bm_url (st ! k)) \<and>
       (\<not> present (title b) \<longrightarrow> bm_title (st' ! k) = bm_title (st ! k)) \<and>
       (\<not> present (description b) \<longrightarrow> bm_description (st' ! k) = bm_description (st ! k)) \<and>
       (\<not> present (tags b) \<longrightarrow> bm_tags (st' ! k) = bm_tags (st ! k)) \<and>
       (\<not> present (isFavorite b) \<longrightarrow> bm_isFavorite (st' ! k) = bm_isFavorite (st ! k))"
      using k [OF kl] bookmark_frame [OF 2(1,2), of "st ! k"] by (elim disjE) simp_all
  qed
  have "?P d" using 2(4) by (rule find_holds)
  then have o: "bm_user (f d) = user"
    using bookmark_frame [OF 2(1,2), of d] by (simp add: byIdAndUser_Bookmark)
  have i: "f d \<in> set st'" using updateFirst_found [OF 2(4)] by (simp add: 2(6))
  show ?thesis
    using l fr o i bookmark_applied [OF 2(1,2), of d] by (simp add: 2(5))
qed

text \<open>
  Claim C9. An update leaves the collection as long as it was, and in every document
  the identifier, the owner, the creation time and each field of the request that the
  body does not have (title, content, tags and favourite flag of a note; URL, title,
  description, tags and favourite flag of a bookmark) are what they were; only a reply
  of 200 goes with a change. The document returned with 200 is in the collection,
  belongs to the caller, and carries for each field that the body has the value sent:
  the trimmed string, the tags as the normaliser returns them, the favourite flag as
  cast; its update time, which the store keeps and no request carries, is the time of
  the update. A required field that is present but blank or no string (the title or
  content of a note, the URL of a bookmark, which must also match the pattern) is
  answered with 400 and nothing changes.
\<close>

theorem partial_update:
  assumes "updateNote now cast user idParam b st = (r, st')"
    and "updateBookmark now cast user idParam b' bst = (r', bst')"
  shows
   "(length st' = length st \<and>
    (\<forall>k<length st.
       note_id (st' ! k) = note_id (st ! k) \<and> note_user (st' ! k) = note_user (st ! k) \<and>
       note_createdAt (st' ! k) = note_createdAt (st ! k) \<and>
       (\<not> present (title b) \<longrightarrow> note_title (st' ! k) = note_title (st ! k)) \<and>
       (\<not> present (content b) \<longrightarrow> note_content (st' ! k) = note_content (st ! k)) \<and>
       (\<not> present (tags b) \<longrightarrow> note_tags (st' ! k) = note_tags (st ! k)) \<and>
       (\<not> present (isFavorite b) \<longrightarrow> note_isFavorite (st' ! k) = note_isFavorite (st ! k))) \<and>
    (status r \<noteq> 200 \<longrightarrow> st' = st) \<and>
    (\<forall>doc. r = Reply 200 (DocBody doc) \<longrightarrow>
       doc \<in> set st' \<and> note_user doc = user \<and>
       (present (title b) \<longrightarrow> note_title doc = trim (theString (title b))) \<and>
       (present (content b) \<longrightarrow> note_content doc = trim (theString (content b))) \<and>
       (present (tags b) \<longrightarrow> updateTags (tags b) = Some (note_tags doc)) \<and>
       (present (isFavorite b) \<longrightarrow> castBoolean (isFavorite b) = Some (note_isFavorite doc)) \<and>
       note_updatedAt doc = now)) \<and>
    (present (title b) \<and> blankOrNotString (title b) \<longrightarrow> status r = 400 \<and> st' = st) \<and>
    (present (content b) \<and> blankOrNotString (content b) \<longrightarrow> status r = 400 \<and> st' = st) \<and>
    (length bst' = length bst \<and>
    (\<forall>k<length bst.
       bm_id (bst' ! k) = bm_id (bst ! k) \<and> bm_user (bst' ! k) = bm_user (bst ! k) \<and>
       bm_createdAt (bst' ! k) = bm_createdAt (bst ! k) \<and>
       (\<not> present (url b') \<longrightarrow> bm_url (bst' ! k) = bm_url (bst ! k)) \<and>
       (\<not> present (title b') \<longrightarrow> bm_title (bst' ! k) = bm_title (bst ! k)) \<and>
       (\<not> present (description b') \<longrightarrow> bm_description (bst' ! k) = bm_description (bst ! k)) \<and>
       (\<not> present (tags b') \<longrightarrow> bm_tags (bst' ! k) = bm_tags (bst ! k)) \<and>
       (\<not> present (isFavorite b') \<longrightarrow> bm_isFavorite (bst' ! k) = bm_isFavorite (bst ! k))) \<and>
    (status r' \<noteq> 200 \<longrightarrow> bst' = bst) \<and>
    (\<forall>doc. r' = Reply 200 (DocBody doc) \<longrightarrow>
       doc \<in> set bst' \<and> bm_user doc = user \<and>
       (present (url b') \<longrightarrow> bm_url doc = trim (theString (url b'))) \<and>
       (present (title b') \<longrightarrow> trimOrEmpty (title b') = Some (bm_title doc)) \<and>
       (present (description b') \<longrightarrow> trimOrEmpty (description b') = Some (bm_description doc)) \<and>
       (present (tags b') \<longrightarrow> updateTags (tags b') = Some (bm_tags doc)) \<and>
       (present (isFavorite b') \<longrightarrow> castBoolean (isFavorite b') = Some (bm_isFavorite doc)) \<and>
       bm_updatedAt doc = now)) \<and>
    (present (url b') \<and> (blankOrNotString (url b') \<or> \<not> urlPattern (trim (theString (url b'))))
       \<longrightarrow> status r' = 400 \<and> bst' = bst)"
proof -
  have 1: "present (title b) \<and> blankOrNotString (title b) \<longrightarrow> status r = 400 \<and> st' = st"
    using updateNote_invalid(1) [of b now cast user idParam st] assms(1) by auto
  have 2: "present (content b) \<and> blankOrNotString (content b) \<longrightarrow> status r = 400 \<and> st' = st"
    using updateNote_invalid(2) [of b now cast user idParam st] assms(1) by auto
  have 3: "present (url b') \<and>
      (blankOrNotString (url b') \<or> \<not> urlPattern (trim (theString (url b'))))
       \<longrightarrow> status r' = 400 \<and> bst' = bst"
    using updateBookmark_invalid [of b' now cast user idParam bst] assms(2) by auto
  show ?thesis
    by (rule conjI [OF note_update_effect [OF assms(1)]
          conjI [OF 1 conjI [OF 2 conjI [OF bookmark_update_effect [OF assms(2)] 3]]]])
qed

theorem partial_update_witness:
  "updateNote 9 castObjectId 2 (lit ''00000000000000000000002a'')
     \<lparr>url = JUndefined, title = JUndefined, content = JUndefined, description = JUndefined,
      tags = JStr (lit ''x, y x''), isFavorite = JUndefined\<rparr>
     [\<lparr>note_id = 7, note_user = 2, note_title = lit ''p'', note_content = lit ''q'',
       note_tags = [], note_isFavorite = Some True, note_createdAt = 1, note_updatedAt = 1\<rparr>,
      \<lparr>note_id = 42, note_user = 2, note_title = lit ''a'', note_content = lit ''b'',
       note_tags = [lit ''old''], note_isFavorite = Some False, note_createdAt = 3, note_updatedAt = 3\<rparr>] =
     (Reply 200 (DocBody
        \<lparr>note_id = 42, note_user = 2, note_title = lit ''a'', note_content = lit ''b'',
         note_tags = [lit ''x'', lit ''y''], note_isFavorite = Some False, note_createdAt = 3, note_updatedAt = 9\<rparr>),
      [\<lparr>note_id = 7, note_user = 2, note_title = lit ''p'', note_content = lit ''q'',
        note_tags = [], note_isFavorite = Some True, note_createdAt = 1, note_updatedAt = 1\<rparr>,
       \<lparr>note_id = 42, note_user = 2, note_title = lit ''a'', note_content = lit ''b'',
        note_tags = [lit ''x'', lit ''y''], note_isFavorite = Some False, note_createdAt = 3, note_updatedAt = 9\<rparr>]) \<and>
   updateBookmark 9 castObjectId 2 (lit ''00000000000000000000002a'')
     \<lparr>url = JStr (lit ''ftp://x.com''), title = JUndefined, content = JUndefined,
      description = JUndefined, tags = JUndefined, isFavorite = JUndefined\<rparr> [] =
     (Reply 400
        (ErrorBody ''Please provide a valid URL (must start with http:// or https://)''), []) \<and>
   updateTags (JStr (lit ''x, y x'')) = Some [lit ''x'', lit ''y'']"
proof -
  let ?id = "lit ''00000000000000000000002a''"
  let ?b = "\<lparr>url = JUndefined, title = JUndefined, content = JUndefined,
      description = JUndefined, tags = JStr (lit ''x, y x''), isFavorite = JUndefined\<rparr>"
  let ?b' = "\<lparr>url = JStr (lit ''ftp://x.com''), title = JUndefined, content = JUndefined,
      description = JUndefined, tags = JUndefined, isFavorite = JUndefined\<rparr>"
  let ?n1 = "\<lparr>note_id = 7, note_user = 2, note_title = lit ''p'', note_content = lit ''q'',
       note_tags = [], note_isFavorite = Some True, note_createdAt = 1, note_updatedAt = 1\<rparr>"
  let ?n2 = "\<lparr>note_id = 42, note_user = 2, note_title = lit ''a'', note_content = lit ''b'',
       note_tags = [lit ''old''], note_isFavorite = Some False, note_createdAt = 3, note_updatedAt = 3\<rparr>"
  let ?d = "\<lparr>note_id = 42, note_user = 2, note_title = lit ''a'', note_content = lit ''b'',
       note_tags = [lit ''x'', lit ''y''], note_isFavorite = Some False, note_createdAt = 3, note_updatedAt = 9\<rparr>"
  have c: "castObjectId ?id = Some 42"
    by (simp add: castObjectId_def lit_def hexDigit_def)
  have t: "updateTags (JStr (lit ''x, y x'')) = Some [lit ''x'', lit ''y'']"
    by (simp add: updateTags_def lit_def trim_def isTagSeparator_def isWhiteSpace_def
        nonEmpty_def new_Set_def Set_add_def)
  have m: "trim (lit ''x'') = lit ''x''" "trim (lit ''y'') = lit ''y''"
    by (simp_all add: lit_def trim_def isWhiteSpace_def)
  have u: "noteUpdateData ?b =
      Inr \<lparr>set_url = None, set_title = None, set_content = None, set_description = None,
           set_tags = Some [lit ''x'', lit ''y''], set_isFavorite = None\<rparr>"
    by (simp add: noteUpdateData_def present_def t)
  have e1: "updateNote 9 castObjectId 2 ?id ?b [?n1, ?n2] = (Reply 200 (DocBody ?d), [?n1, ?d])"
    by (simp add: updateNote_def u c findOneAndUpdate_def Note_change_def castFavorite_def
        onSet_def assign_def byIdAndUser_Note m)
  have e2: "updateBookmark 9 castObjectId 2 ?id ?b' [] =
      (Reply 400 (ErrorBody ''Please provide a valid URL (must start with http:// or https://)''),
       [])"
    by (simp add: updateBookmark_def bookmarkUpdateData_def present_def lit_def trim_def
        isWhiteSpace_def urlPattern_def)
  note p = partial_update [OF e1 e2, THEN conjunct1, THEN conjunct2, THEN conjunct2,
      THEN conjunct2, THEN spec, THEN mp, OF refl]
  have "present (tags ?b)" by (simp add: present_def)
  then have "updateTags (tags ?b) = Some (note_tags ?d)"
    using p by (elim conjE) (erule (1) mp)
  then have "updateTags (JStr (lit ''x, y x'')) = Some [lit ''x'', lit ''y'']" by simp
  with e1 e2 show ?thesis by (intro conjI)
qed

end
